theory Spec2Isabelle
  imports Complex_Main "HOL-Library.Word"
begin

section \<open>JavaScript values\<close>

text \<open>
  The writer lives in \<^verbatim>\<open>src/js/3D/writers/FBXWriter.js\<close>. A JavaScript string is a
  sequence of UTF-16 code units: \<^verbatim>\<open>s.length\<close> counts code units, while
  \<^verbatim>\<open>Buffer.byteLength(s)\<close> counts the bytes of the UTF-8 encoding. Both occur in the
  source, so strings are lists of 16-bit words and the encoding is written out.
\<close>

type_synonym byte = "8 word"
type_synonym jsstring = "16 word list"

text \<open>An ASCII literal of the source as a JavaScript string.\<close>

definition js :: "string \<Rightarrow> jsstring" where
  "js s = map (\<lambda>c. of_nat (of_char c)) s"

definition is_high_surrogate :: "16 word \<Rightarrow> bool" where
  "is_high_surrogate c = (0xD800 \<le> unat c \<and> unat c < 0xDC00)"

definition is_low_surrogate :: "16 word \<Rightarrow> bool" where
  "is_low_surrogate c = (0xDC00 \<le> unat c \<and> unat c < 0xE000)"

text \<open>
  UTF-8 of one code unit that is not part of a surrogate pair; a lone surrogate is
  encoded as U+FFFD (EF BF BD), as Node.js does.
\<close>

definition utf8_unit :: "16 word \<Rightarrow> byte list" where
  "utf8_unit c =
     (let u = unat c in
      if u < 0x80 then [of_nat u]
      else if u < 0x800 then [of_nat (0xC0 + u div 64), of_nat (0x80 + u mod 64)]
      else if is_high_surrogate c \<or> is_low_surrogate c then [0xEF, 0xBF, 0xBD]
      else [of_nat (0xE0 + u div 4096), of_nat (0x80 + (u div 64) mod 64),
            of_nat (0x80 + u mod 64)])"

definition utf8_pair :: "16 word \<Rightarrow> 16 word \<Rightarrow> byte list" where
  "utf8_pair h l =
     (let cp = 0x10000 + (unat h - 0xD800) * 1024 + (unat l - 0xDC00) in
      [of_nat (0xF0 + cp div 262144), of_nat (0x80 + (cp div 4096) mod 64),
       of_nat (0x80 + (cp div 64) mod 64), of_nat (0x80 + cp mod 64)])"

fun utf8 :: "jsstring \<Rightarrow> byte list" where
  "utf8 [] = []"
| "utf8 [c] = utf8_unit c"
| "utf8 (c # d # ds) =
     (if is_high_surrogate c \<and> is_low_surrogate d then utf8_pair c d @ utf8 ds
      else utf8_unit c @ utf8 (d # ds))"

text \<open>
  The values a property carries. A JavaScript number is modelled by the rational it
  denotes; rounding to IEEE 754 happens in the buffer's float writers, which are
  parameters of the model (\<open>ieee754\<close> below).
\<close>

datatype jsvalue =
    JSNumber rat
  | JSBoolean bool
  | JSString jsstring
  | JSBuffer "byte list"

datatype error = TypeError | RangeError | SyntaxError | NotANumber | OutOfBounds | IOError

definition and_then :: "error + 'a \<Rightarrow> ('a \<Rightarrow> error + 'b) \<Rightarrow> error + 'b" where
  "and_then m f = (case m of Inl e \<Rightarrow> Inl e | Inr x \<Rightarrow> f x)"

text \<open>
  \<^verbatim>\<open>Buffer.byteLength(v)\<close>: the UTF-8 length of a string, the length of a buffer, and
  a TypeError for any other value.
\<close>

fun Buffer_byteLength :: "jsvalue \<Rightarrow> error + nat" where
  "Buffer_byteLength (JSString s) = Inr (length (utf8 s))"
| "Buffer_byteLength (JSBuffer b) = Inr (length b)"
| "Buffer_byteLength _ = Inl TypeError"

text \<open>The property read \<^verbatim>\<open>v.byteLength\<close>: \<open>None\<close> is JavaScript's \<^verbatim>\<open>undefined\<close>.\<close>

fun value_byteLength :: "jsvalue \<Rightarrow> nat option" where
  "value_byteLength (JSBuffer b) = Some (length b)"
| "value_byteLength _ = None"

text \<open>Truthiness, for \<^verbatim>\<open>value ? 0x01 : 0x00\<close>.\<close>

fun truthy :: "jsvalue \<Rightarrow> bool" where
  "truthy (JSNumber r) = (r \<noteq> 0)"
| "truthy (JSBoolean b) = b"
| "truthy (JSString s) = (s \<noteq> [])"
| "truthy (JSBuffer b) = True"

text \<open>
  \<^verbatim>\<open>buf.toString()\<close> of a Node.js buffer decodes it as UTF-8. Every maximal ill-formed
  part of the input becomes one U+FFFD; the byte that ends such a part is decoded again
  as the start of the next character. The result is the list of code points.
\<close>

definition in_range :: "nat \<Rightarrow> nat \<Rightarrow> byte \<Rightarrow> bool" where
  "in_range lo hi c = (lo \<le> unat c \<and> unat c \<le> hi)"

fun utf8_decode :: "byte list \<Rightarrow> nat list" where
  "utf8_decode [] = []"
| "utf8_decode (b # bs) =
     (if unat b < 0x80 then unat b # utf8_decode bs
      else if in_range 0xC2 0xDF b then
        (case bs of
           [] \<Rightarrow> [0xFFFD]
         | c # r \<Rightarrow>
             if in_range 0x80 0xBF c
             then ((unat b - 0xC0) * 64 + (unat c - 0x80)) # utf8_decode r
             else 0xFFFD # utf8_decode bs)
      else if in_range 0xE0 0xEF b then
        (case bs of
           [] \<Rightarrow> [0xFFFD]
         | c # r \<Rightarrow>
             if in_range (if unat b = 0xE0 then 0xA0 else 0x80)
                  (if unat b = 0xED then 0x9F else 0xBF) c
             then
               (case r of
                  [] \<Rightarrow> [0xFFFD]
                | d # r' \<Rightarrow>
                    if in_range 0x80 0xBF d
                    then ((unat b - 0xE0) * 4096 + (unat c - 0x80) * 64 + (unat d - 0x80))
                           # utf8_decode r'
                    else 0xFFFD # utf8_decode r)
             else 0xFFFD # utf8_decode bs)
      else if in_range 0xF0 0xF4 b then
        (case bs of
           [] \<Rightarrow> [0xFFFD]
         | c # r \<Rightarrow>
             if in_range (if unat b = 0xF0 then 0x90 else 0x80)
                  (if unat b = 0xF4 then 0x8F else 0xBF) c
             then
               (case r of
                  [] \<Rightarrow> [0xFFFD]
                | d # r' \<Rightarrow>
                    if in_range 0x80 0xBF d
                    then
                      (case r' of
                         [] \<Rightarrow> [0xFFFD]
                       | e # r'' \<Rightarrow>
                           if in_range 0x80 0xBF e
                           then ((unat b - 0xF0) * 262144 + (unat c - 0x80) * 4096 +
                                 (unat d - 0x80) * 64 + (unat e - 0x80)) # utf8_decode r''
                           else 0xFFFD # utf8_decode r')
                    else 0xFFFD # utf8_decode r)
             else 0xFFFD # utf8_decode bs)
      else 0xFFFD # utf8_decode bs)"

text \<open>The UTF-16 code units of a code point.\<close>

definition utf16 :: "nat \<Rightarrow> jsstring" where
  "utf16 cp =
     (if cp < 0x10000 then [of_nat cp]
      else [of_nat (0xD800 + (cp - 0x10000) div 1024),
            of_nat (0xDC00 + (cp - 0x10000) mod 1024)])"

definition Buffer_toString :: "byte list \<Rightarrow> jsstring" where
  "Buffer_toString b = concat (map utf16 (utf8_decode b))"

text \<open>
  The conversion of a string to a BigInt (\<^verbatim>\<open>StringToBigInt\<close> of ECMAScript): white space
  and line terminators are trimmed from both ends; the empty string is 0; what remains is
  either a prefix \<^verbatim>\<open>0x\<close>, \<^verbatim>\<open>0o\<close> or \<^verbatim>\<open>0b\<close> (in either case) followed by at least one
  digit of that radix, or an optional sign followed by at least one decimal digit.
  \<open>None\<close> is the failure that \<^verbatim>\<open>BigInt\<close> reports as a SyntaxError.
\<close>

definition is_StrWhiteSpaceChar :: "16 word \<Rightarrow> bool" where
  "is_StrWhiteSpaceChar c =
     (unat c \<in> set [0x9, 0xA, 0xB, 0xC, 0xD, 0x20, 0xA0, 0x1680, 0x2028, 0x2029, 0x202F,
                     0x205F, 0x3000, 0xFEFF] \<or>
      (0x2000 \<le> unat c \<and> unat c \<le> 0x200A))"

definition trim :: "jsstring \<Rightarrow> jsstring" where
  "trim s = rev (dropWhile is_StrWhiteSpaceChar (rev (dropWhile is_StrWhiteSpaceChar s)))"

definition digit_value :: "16 word \<Rightarrow> nat option" where
  "digit_value c =
     (if 0x30 \<le> unat c \<and> unat c \<le> 0x39 then Some (unat c - 0x30)
      else if 0x61 \<le> unat c \<and> unat c \<le> 0x66 then Some (unat c - 0x61 + 10)
      else if 0x41 \<le> unat c \<and> unat c \<le> 0x46 then Some (unat c - 0x41 + 10)
      else None)"

fun parse_digits :: "nat \<Rightarrow> jsstring \<Rightarrow> nat \<Rightarrow> nat option" where
  "parse_digits radix [] acc = Some acc"
| "parse_digits radix (c # cs) acc =
     (case digit_value c of
        None \<Rightarrow> None
      | Some d \<Rightarrow> if d < radix then parse_digits radix cs (acc * radix + d) else None)"

definition parse_number :: "nat \<Rightarrow> jsstring \<Rightarrow> nat option" where
  "parse_number radix s = (if s = [] then None else parse_digits radix s 0)"

definition StringToBigInt :: "jsstring \<Rightarrow> int option" where
  "StringToBigInt s =
     (case trim s of
        [] \<Rightarrow> Some 0
      | [c] \<Rightarrow> map_option int (parse_number 10 [c])
      | c # d # r \<Rightarrow>
          if c = 0x30 \<and> (d = 0x78 \<or> d = 0x58) then map_option int (parse_number 16 r)
          else if c = 0x30 \<and> (d = 0x6F \<or> d = 0x4F) then map_option int (parse_number 8 r)
          else if c = 0x30 \<and> (d = 0x62 \<or> d = 0x42) then map_option int (parse_number 2 r)
          else if c = 0x2B then map_option int (parse_number 10 (d # r))
          else if c = 0x2D then map_option (\<lambda>n. - int n) (parse_number 10 (d # r))
          else map_option int (parse_number 10 (c # d # r)))"

text \<open>
  \<^verbatim>\<open>BigInt(v)\<close>. A number must be an integer, or a RangeError is raised. A boolean
  converts to 0 or 1. A string is parsed, and a string that is no integer literal raises
  a SyntaxError. A buffer is an object: it is first converted to a primitive, which is
  the string that its \<^verbatim>\<open>toString\<close> returns.
\<close>

fun BigInt :: "jsvalue \<Rightarrow> error + int" where
  "BigInt (JSNumber r) = (if r = of_int \<lfloor>r\<rfloor> then Inr \<lfloor>r\<rfloor> else Inl RangeError)"
| "BigInt (JSBoolean b) = Inr (if b then 1 else 0)"
| "BigInt (JSString s) =
     (case StringToBigInt s of None \<Rightarrow> Inl SyntaxError | Some n \<Rightarrow> Inr n)"
| "BigInt (JSBuffer b) =
     (case StringToBigInt (Buffer_toString b) of None \<Rightarrow> Inl SyntaxError | Some n \<Rightarrow> Inr n)"

section \<open>Property types and node records\<close>

text \<open>The thirteen \<^verbatim>\<open>PROPERTY_\<close> descriptor objects, compared by identity in the source.\<close>

datatype PropertyType =
    PROPERTY_INT_16 | PROPERTY_INT_32 | PROPERTY_INT_64
  | PROPERTY_FLOAT | PROPERTY_DOUBLE | PROPERTY_BOOLEAN
  | PROPERTY_STRING | PROPERTY_BINARY
  | PROPERTY_ARR_INT_32 | PROPERTY_ARR_INT_64
  | PROPERTY_ARR_FLOAT | PROPERTY_ARR_DOUBLE | PROPERTY_ARR_BOOLEAN

fun type_code :: "PropertyType \<Rightarrow> nat" where
  "type_code PROPERTY_INT_16 = 0x59"
| "type_code PROPERTY_INT_32 = 0x49"
| "type_code PROPERTY_INT_64 = 0x4C"
| "type_code PROPERTY_FLOAT = 0x46"
| "type_code PROPERTY_DOUBLE = 0x44"
| "type_code PROPERTY_BOOLEAN = 0x43"
| "type_code PROPERTY_STRING = 0x53"
| "type_code PROPERTY_BINARY = 0x52"
| "type_code PROPERTY_ARR_INT_32 = 0x69"
| "type_code PROPERTY_ARR_INT_64 = 0x6C"
| "type_code PROPERTY_ARR_FLOAT = 0x66"
| "type_code PROPERTY_ARR_DOUBLE = 0x64"
| "type_code PROPERTY_ARR_BOOLEAN = 0x62"

fun type_isArray :: "PropertyType \<Rightarrow> bool" where
  "type_isArray PROPERTY_ARR_INT_32 = True"
| "type_isArray PROPERTY_ARR_INT_64 = True"
| "type_isArray PROPERTY_ARR_FLOAT = True"
| "type_isArray PROPERTY_ARR_DOUBLE = True"
| "type_isArray PROPERTY_ARR_BOOLEAN = True"
| "type_isArray _ = False"

text \<open>The \<^verbatim>\<open>size\<close> field of a descriptor; the string and binary descriptors have none.\<close>

fun type_size :: "PropertyType \<Rightarrow> nat option" where
  "type_size PROPERTY_INT_16 = Some 2"
| "type_size PROPERTY_INT_32 = Some 4"
| "type_size PROPERTY_INT_64 = Some 8"
| "type_size PROPERTY_FLOAT = Some 4"
| "type_size PROPERTY_DOUBLE = Some 8"
| "type_size PROPERTY_BOOLEAN = Some 1"
| "type_size PROPERTY_STRING = None"
| "type_size PROPERTY_BINARY = None"
| "type_size PROPERTY_ARR_INT_32 = Some 4"
| "type_size PROPERTY_ARR_INT_64 = Some 8"
| "type_size PROPERTY_ARR_FLOAT = Some 4"
| "type_size PROPERTY_ARR_DOUBLE = Some 8"
| "type_size PROPERTY_ARR_BOOLEAN = Some 1"

text \<open>
  The \<^verbatim>\<open>value\<close> field of a descriptor, which the size calculator reads for array types
  (\<^verbatim>\<open>type.value.length\<close>). No descriptor declares one: the read is \<^verbatim>\<open>undefined\<close>.
\<close>

definition type_value :: "PropertyType \<Rightarrow> jsvalue list option" where
  "type_value t = None"

text \<open>A property object \<^verbatim>\<open>{ type, value }\<close>.\<close>

datatype Property = Property (ptype: PropertyType) (pvalue: jsvalue)

text \<open>
  A node record as the two traversals see it: its name, its properties and children in
  the iteration order of their sets, and the two fields that the size calculator stores
  on the node (\<^verbatim>\<open>node.size\<close>, \<^verbatim>\<open>node.propertySize\<close>), which are \<^verbatim>\<open>undefined\<close> (\<open>None\<close>)
  until then. The object identity of records and properties, which the sets are keyed by,
  is modelled in the section on the object store.
\<close>

datatype FBXNodeRecord =
  FBXNodeRecord (name: jsstring) (properties: "Property list")
    (children: "FBXNodeRecord list") (size_fld: "nat option") (propertySize: "nat option")

section \<open>The size calculator\<close>

text \<open>
  What one iteration of the property loop of \<^verbatim>\<open>calculateNodeTreeSize\<close> adds to
  \<^verbatim>\<open>size\<close>. Adding \<^verbatim>\<open>undefined\<close> makes the sum NaN, which later reaches the allocation
  of the output buffer; the model stops with \<open>NotANumber\<close> there.
\<close>

fun property_size :: "Property \<Rightarrow> error + nat" where
  "property_size (Property t v) =
     (if t = PROPERTY_STRING then
        and_then (Buffer_byteLength v) (\<lambda>n. Inr (1 + (4 + n)))
      else if t = PROPERTY_BINARY then
        (case value_byteLength v of None \<Rightarrow> Inl NotANumber | Some n \<Rightarrow> Inr (1 + (4 + n)))
      else if type_isArray t then
        (case type_value t of
           None \<Rightarrow> Inl TypeError
         | Some a \<Rightarrow> Inr (1 + the (type_size t) * length a))
      else
        (case type_size t of None \<Rightarrow> Inl NotANumber | Some n \<Rightarrow> Inr (1 + n)))"

fun properties_size :: "Property list \<Rightarrow> nat \<Rightarrow> error + nat" where
  "properties_size [] sz = Inr sz"
| "properties_size (p # ps) sz =
     and_then (property_size p) (\<lambda>n. properties_size ps (sz + n))"

text \<open>
  \<^verbatim>\<open>calculateNodeTreeSize\<close>: the first function is the branch for a node record, the
  second the branch for a set of records, which is also the loop over a node's children.
  The name contributes \<^verbatim>\<open>node.name.length\<close>, the number of UTF-16 code units. The
  function returns the size and the records with their two fields stored.
\<close>

fun calculateNodeTreeSize :: "FBXNodeRecord \<Rightarrow> error + nat \<times> FBXNodeRecord"
  and calculateNodeTreeSize_Set :: "FBXNodeRecord list \<Rightarrow> error + nat \<times> FBXNodeRecord list"
where
  "calculateNodeTreeSize (FBXNodeRecord nm ps cs sz psz) =
     (let size0 = 4 + 4 + 4 + 1 + length nm in
      and_then (properties_size ps size0) (\<lambda>size1.
      let pSize = size1 - size0 in
      and_then (calculateNodeTreeSize_Set cs) (\<lambda>(csize, cs').
      let size2 = size1 + csize;
          size3 = (if length cs > 0 then size2 + 13 else size2)
      in Inr (size3, FBXNodeRecord nm ps cs' (Some size3) (Some pSize)))))"
| "calculateNodeTreeSize_Set [] = Inr (0, [])"
| "calculateNodeTreeSize_Set (c # cs) =
     and_then (calculateNodeTreeSize c) (\<lambda>(s, c').
     and_then (calculateNodeTreeSize_Set cs) (\<lambda>(t, cs'). Inr (s + t, c' # cs')))"

section \<open>The output buffer\<close>

text \<open>
  Modelled from the spec: the class \<^verbatim>\<open>BufferWrapper\<close> (\<^verbatim>\<open>src/js/buffer.js\<close>) is not among
  the sources. The specification describes it as a byte buffer with a cursor that
  supports little-endian fixed-width writes, raw-byte writes and UTF-8 string writes, and
  that is allocated once at its final size. A write that does not fit behind the cursor,
  or a number that does not fit its field, is an error.
\<close>

record BufferWrapper =
  data :: "byte list"
  offset :: nat

definition alloc :: "nat \<Rightarrow> BufferWrapper" where
  "alloc n = \<lparr>data = replicate n 0, offset = 0\<rparr>"

definition writeBuffer :: "byte list \<Rightarrow> BufferWrapper \<Rightarrow> error + BufferWrapper" where
  "writeBuffer bs buf =
     (if offset buf + length bs \<le> length (data buf) then
        Inr \<lparr>data = take (offset buf) (data buf) @ bs @
                     drop (offset buf + length bs) (data buf),
             offset = offset buf + length bs\<rparr>
      else Inl OutOfBounds)"

primrec le_bytes :: "nat \<Rightarrow> nat \<Rightarrow> byte list" where
  "le_bytes 0 v = []"
| "le_bytes (Suc k) v = of_nat (v mod 256) # le_bytes k (v div 256)"

primrec le_nat :: "byte list \<Rightarrow> nat" where
  "le_nat [] = 0"
| "le_nat (b # bs) = unat b + 256 * le_nat bs"

definition writeUInt8 :: "nat \<Rightarrow> BufferWrapper \<Rightarrow> error + BufferWrapper" where
  "writeUInt8 v buf = (if v < 2 ^ 8 then writeBuffer (le_bytes 1 v) buf else Inl RangeError)"

definition writeUInt32LE :: "nat \<Rightarrow> BufferWrapper \<Rightarrow> error + BufferWrapper" where
  "writeUInt32LE v buf = (if v < 2 ^ 32 then writeBuffer (le_bytes 4 v) buf else Inl RangeError)"

text \<open>A signed write of \<open>k\<close> bytes: two's complement of an integer in range.\<close>

definition writeIntLE :: "nat \<Rightarrow> int \<Rightarrow> BufferWrapper \<Rightarrow> error + BufferWrapper" where
  "writeIntLE k v buf =
     (if - (2 ^ (8 * k - 1)) \<le> v \<and> v < 2 ^ (8 * k - 1)
      then writeBuffer (le_bytes k (nat (v mod 2 ^ (8 * k)))) buf
      else Inl RangeError)"

fun to_integer :: "jsvalue \<Rightarrow> error + int" where
  "to_integer (JSNumber r) = (if r = of_int \<lfloor>r\<rfloor> then Inr \<lfloor>r\<rfloor> else Inl RangeError)"
| "to_integer _ = Inl TypeError"

definition writeInt16LE :: "jsvalue \<Rightarrow> BufferWrapper \<Rightarrow> error + BufferWrapper" where
  "writeInt16LE v buf = and_then (to_integer v) (\<lambda>n. writeIntLE 2 n buf)"

definition writeInt32LE :: "jsvalue \<Rightarrow> BufferWrapper \<Rightarrow> error + BufferWrapper" where
  "writeInt32LE v buf = and_then (to_integer v) (\<lambda>n. writeIntLE 4 n buf)"

definition writeInt64LE :: "int \<Rightarrow> BufferWrapper \<Rightarrow> error + BufferWrapper" where
  "writeInt64LE n buf = writeIntLE 8 n buf"

text \<open>
  The rounding of a number to IEEE 754 single and double precision is not modelled: the
  two encoders are parameters, and only the width of what they produce is fixed.
\<close>

record ieee754 =
  float32_bits :: "rat \<Rightarrow> 32 word"
  float64_bits :: "rat \<Rightarrow> 64 word"

definition writeFloatLE :: "ieee754 \<Rightarrow> jsvalue \<Rightarrow> BufferWrapper \<Rightarrow> error + BufferWrapper" where
  "writeFloatLE fp v buf =
     (case v of JSNumber r \<Rightarrow> writeBuffer (le_bytes 4 (unat (float32_bits fp r))) buf
      | _ \<Rightarrow> Inl TypeError)"

definition writeDoubleLE :: "ieee754 \<Rightarrow> jsvalue \<Rightarrow> BufferWrapper \<Rightarrow> error + BufferWrapper" where
  "writeDoubleLE fp v buf =
     (case v of JSNumber r \<Rightarrow> writeBuffer (le_bytes 8 (unat (float64_bits fp r))) buf
      | _ \<Rightarrow> Inl TypeError)"

definition writeString :: "jsvalue \<Rightarrow> BufferWrapper \<Rightarrow> error + BufferWrapper" where
  "writeString v buf = (case v of JSString s \<Rightarrow> writeBuffer (utf8 s) buf | _ \<Rightarrow> Inl TypeError)"

definition writeBuffer_value :: "jsvalue \<Rightarrow> BufferWrapper \<Rightarrow> error + BufferWrapper" where
  "writeBuffer_value v buf = (case v of JSBuffer b \<Rightarrow> writeBuffer b buf | _ \<Rightarrow> Inl TypeError)"

section \<open>The writer\<close>

text \<open>
  One iteration of the property loop of \<^verbatim>\<open>writeNode\<close>: the type code, then the payload
  chosen by the \<^verbatim>\<open>switch\<close>, which has no case for the array types.
\<close>

fun writeProperty :: "ieee754 \<Rightarrow> Property \<Rightarrow> BufferWrapper \<Rightarrow> error + BufferWrapper" where
  "writeProperty fp (Property t v) buf =
     and_then (writeUInt8 (type_code t) buf) (\<lambda>buf.
       case t of
         PROPERTY_INT_16 \<Rightarrow> writeInt16LE v buf
       | PROPERTY_INT_32 \<Rightarrow> writeInt32LE v buf
       | PROPERTY_INT_64 \<Rightarrow> and_then (BigInt v) (\<lambda>n. writeInt64LE n buf)
       | PROPERTY_FLOAT \<Rightarrow> writeFloatLE fp v buf
       | PROPERTY_DOUBLE \<Rightarrow> writeDoubleLE fp v buf
       | PROPERTY_BOOLEAN \<Rightarrow> writeUInt8 (if truthy v then 0x01 else 0x00) buf
       | PROPERTY_STRING \<Rightarrow>
           and_then (Buffer_byteLength v) (\<lambda>n.
           and_then (writeUInt32LE n buf) (\<lambda>buf. writeString v buf))
       | PROPERTY_BINARY \<Rightarrow>
           (case value_byteLength v of
              None \<Rightarrow> Inl NotANumber
            | Some n \<Rightarrow> and_then (writeUInt32LE n buf) (\<lambda>buf. writeBuffer_value v buf))
       | _ \<Rightarrow> Inr buf)"

fun writeProperties :: "ieee754 \<Rightarrow> Property list \<Rightarrow> BufferWrapper \<Rightarrow> error + BufferWrapper" where
  "writeProperties fp [] buf = Inr buf"
| "writeProperties fp (p # ps) buf = and_then (writeProperty fp p buf) (writeProperties fp ps)"

text \<open>The padding loop: \<open>n\<close> zero bytes, one write each.\<close>

primrec write_zeros :: "nat \<Rightarrow> BufferWrapper \<Rightarrow> error + BufferWrapper" where
  "write_zeros 0 buf = Inr buf"
| "write_zeros (Suc n) buf = and_then (writeUInt8 0x0 buf) (write_zeros n)"

text \<open>
  \<^verbatim>\<open>writeNode\<close>, with the loop over the children as the second function. A record whose
  \<^verbatim>\<open>size\<close> or \<^verbatim>\<open>propertySize\<close> is still \<^verbatim>\<open>undefined\<close> gives a NaN header field; the model
  stops with \<open>NotANumber\<close>.
\<close>

fun writeNode :: "ieee754 \<Rightarrow> FBXNodeRecord \<Rightarrow> BufferWrapper \<Rightarrow> error + BufferWrapper"
  and writeNodes :: "ieee754 \<Rightarrow> FBXNodeRecord list \<Rightarrow> BufferWrapper \<Rightarrow> error + BufferWrapper"
where
  "writeNode fp (FBXNodeRecord nm ps cs sz psz) buf =
     (case sz of None \<Rightarrow> Inl NotANumber | Some s \<Rightarrow>
      and_then (writeUInt32LE (offset buf + s) buf) (\<lambda>buf.
      and_then (writeUInt32LE (length ps) buf) (\<lambda>buf.
      case psz of None \<Rightarrow> Inl NotANumber | Some p \<Rightarrow>
      and_then (writeUInt32LE p buf) (\<lambda>buf.
      and_then (writeUInt8 (length (utf8 nm)) buf) (\<lambda>buf.
      and_then (writeString (JSString nm) buf) (\<lambda>buf.
      and_then (writeProperties fp ps buf) (\<lambda>buf.
      and_then (writeNodes fp cs buf) (\<lambda>buf.
      if length cs > 0 then write_zeros 13 buf else Inr buf))))))))"
| "writeNodes fp [] buf = Inr buf"
| "writeNodes fp (c # cs) buf = and_then (writeNode fp c buf) (writeNodes fp cs)"

section \<open>Building the document tree\<close>

text \<open>
  The builder attaches only records and properties that it has just constructed, so no
  \<^verbatim>\<open>Set.add\<close> of the builder meets an element that the set already holds, and a set is
  the list of its additions (the object store below states this for \<^verbatim>\<open>addChild\<close> and
  \<^verbatim>\<open>addProperty\<close>). On record values the constructor and the two methods are therefore
  the following functions. Where the source attaches a child first and fills it afterwards
  through the reference that \<^verbatim>\<open>addChild\<close> returns, the model fills the child first.
\<close>

definition add_properties :: "PropertyType \<Rightarrow> jsvalue list \<Rightarrow> FBXNodeRecord \<Rightarrow> FBXNodeRecord" where
  "add_properties t vs n =
     FBXNodeRecord (name n) (properties n @ map (Property t) vs) (children n)
       (size_fld n) (propertySize n)"

definition add_children :: "FBXNodeRecord list \<Rightarrow> FBXNodeRecord \<Rightarrow> FBXNodeRecord" where
  "add_children cs n =
     FBXNodeRecord (name n) (properties n) (children n @ cs) (size_fld n) (propertySize n)"

definition new_record :: "jsstring \<Rightarrow> FBXNodeRecord" where
  "new_record nm = FBXNodeRecord nm [] [] None None"

definition new_record_with :: "jsstring \<Rightarrow> PropertyType \<Rightarrow> jsvalue list \<Rightarrow> FBXNodeRecord" where
  "new_record_with nm t vs = add_properties t vs (new_record nm)"

definition str :: "string \<Rightarrow> jsvalue" where
  "str s = JSString (js s)"

subsection \<open>The property-template subclasses\<close>

definition FBXProperty_Boolean :: "jsstring \<Rightarrow> bool \<Rightarrow> FBXNodeRecord" where
  "FBXProperty_Boolean nm state =
     add_properties PROPERTY_INT_32 [JSNumber (if state then 1 else 0)]
       (add_properties PROPERTY_STRING [JSString nm, str ''bool'', str [], str []]
         (new_record (js ''P'')))"

definition FBXProperty_Vector3D :: "jsstring \<Rightarrow> rat \<Rightarrow> rat \<Rightarrow> rat \<Rightarrow> FBXNodeRecord" where
  "FBXProperty_Vector3D nm x y z =
     add_properties PROPERTY_DOUBLE [JSNumber x, JSNumber y, JSNumber z]
       (add_properties PROPERTY_STRING [JSString nm, str ''Vector3D'', str ''Vector'', str []]
         (new_record (js ''P'')))"

definition FBXProperty_ColorRGB :: "jsstring \<Rightarrow> rat \<Rightarrow> rat \<Rightarrow> rat \<Rightarrow> FBXNodeRecord" where
  "FBXProperty_ColorRGB nm r g b =
     add_properties PROPERTY_DOUBLE [JSNumber r, JSNumber g, JSNumber b]
       (add_properties PROPERTY_STRING [JSString nm, str ''ColorRGB'', str ''Color'', str []]
         (new_record (js ''P'')))"

definition FBXProperty_URL :: "jsstring \<Rightarrow> jsstring \<Rightarrow> FBXNodeRecord" where
  "FBXProperty_URL nm url =
     add_properties PROPERTY_STRING [JSString nm, str ''KString'', str ''Url'', JSString url]
       (new_record (js ''P''))"

definition FBXProperty_Enum :: "jsstring \<Rightarrow> rat \<Rightarrow> FBXNodeRecord" where
  "FBXProperty_Enum nm v =
     add_properties PROPERTY_INT_32 [JSNumber v]
       (add_properties PROPERTY_STRING [JSString nm, str ''enum'', str [], str []]
         (new_record (js ''P'')))"

definition FBXProperty_Double :: "jsstring \<Rightarrow> rat \<Rightarrow> FBXNodeRecord" where
  "FBXProperty_Double nm v =
     add_properties PROPERTY_DOUBLE [JSNumber v]
       (add_properties PROPERTY_STRING [JSString nm, str ''double'', str ''Number'', str []]
         (new_record (js ''P'')))"

definition FBXProperty_KTime :: "jsstring \<Rightarrow> rat \<Rightarrow> FBXNodeRecord" where
  "FBXProperty_KTime nm v =
     add_properties PROPERTY_INT_64 [JSNumber v]
       (add_properties PROPERTY_STRING [JSString nm, str ''KTime'', str ''Time'', str []]
         (new_record (js ''P'')))"

definition FBXProperty_KString :: "jsstring \<Rightarrow> jsstring \<Rightarrow> FBXNodeRecord" where
  "FBXProperty_KString nm v =
     add_properties PROPERTY_STRING
       [JSString nm, str ''KString'', str [], str [], JSString v]
       (new_record (js ''P''))"

definition FBXProperty_Integer :: "jsstring \<Rightarrow> rat \<Rightarrow> FBXNodeRecord" where
  "FBXProperty_Integer nm v =
     add_properties PROPERTY_INT_32 [JSNumber v]
       (add_properties PROPERTY_STRING [JSString nm, str ''int'', str ''Integer'', str []]
         (new_record (js ''P'')))"

definition FBXProperty_Object :: "jsstring \<Rightarrow> FBXNodeRecord" where
  "FBXProperty_Object nm =
     add_properties PROPERTY_STRING [JSString nm, str ''object'', str [], str []]
       (new_record (js ''P''))"

definition FBXProperty_LCLVector :: "jsstring \<Rightarrow> rat \<Rightarrow> rat \<Rightarrow> rat \<Rightarrow> FBXNodeRecord" where
  "FBXProperty_LCLVector nm x y z =
     add_properties PROPERTY_DOUBLE [JSNumber x, JSNumber y, JSNumber z]
       (add_properties PROPERTY_STRING [JSString nm, JSString nm, str [], str ''A'']
         (new_record (js ''P'')))"

subsection \<open>Dates, number formatting and the environment\<close>

text \<open>A \<^verbatim>\<open>Date\<close> object, as the getters that the builder calls on it.\<close>

record Date =
  getFullYear :: int
  getMonth :: int
  getDate :: int
  getHours :: int
  getMinutes :: int
  getSeconds :: int
  getMilliseconds :: int
  getUTCFullYear :: int
  getUTCMonth :: int
  getUTCHours :: int
  getUTCMinutes :: int
  getUTCSeconds :: int
  getUTCMilliseconds :: int

fun digits :: "nat \<Rightarrow> jsstring" where
  "digits n =
     (if n < 10 then [of_nat (48 + n)] else digits (n div 10) @ [of_nat (48 + n mod 10)])"

declare digits.simps [simp del]

text \<open>\<^verbatim>\<open>n.toString()\<close> and \<^verbatim>\<open>%s\<close> of an integral number: its decimal numeral.\<close>

definition toString :: "int \<Rightarrow> jsstring" where
  "toString i = (if i < 0 then 0x2D # digits (nat (- i)) else digits (nat i))"

text \<open>\<^verbatim>\<open>s.padStart(n, '0')\<close>.\<close>

definition padStart :: "nat \<Rightarrow> jsstring \<Rightarrow> jsstring" where
  "padStart n s = replicate (n - length s) 0x30 @ s"

text \<open>\<^verbatim>\<open>util.format('%s/%s/%s %s:%s:%s:%s', a, b, c, d, e, f, g)\<close>.\<close>

definition format_time ::
  "jsstring \<Rightarrow> jsstring \<Rightarrow> jsstring \<Rightarrow> jsstring \<Rightarrow> jsstring \<Rightarrow> jsstring \<Rightarrow> jsstring \<Rightarrow> jsstring" where
  "format_time a b c d e f g =
     a @ js ''/'' @ b @ js ''/'' @ c @ js '' '' @ d @ js '':'' @ e @ js '':'' @ f @ js '':'' @ g"

text \<open>
  What the writer takes from its surroundings, as operations on a world \<open>'w\<close>: the clock
  (\<^verbatim>\<open>new Date()\<close>), the random number generator (\<^verbatim>\<open>Math.random()\<close>, a double in
  \<open>[0, 1)\<close>), the application manifest (\<^verbatim>\<open>nw.App.manifest\<close>), Node's \<^verbatim>\<open>path\<close> module, and
  the file operations of \<^verbatim>\<open>generics\<close> and \<^verbatim>\<open>BufferWrapper\<close>, which are not among the
  sources and are taken as parameters.
\<close>

record 'w sys =
  new_Date :: "'w \<Rightarrow> Date \<times> 'w"
  Math_random :: "'w \<Rightarrow> rat \<times> 'w"
  manifest_version :: jsstring
  manifest_flavour :: jsstring
  path_basename :: "jsstring \<Rightarrow> jsstring"
  path_dirname :: "jsstring \<Rightarrow> jsstring"
  fileExists :: "jsstring \<Rightarrow> 'w \<Rightarrow> bool"
  createDirectory :: "jsstring \<Rightarrow> 'w \<Rightarrow> error + 'w"
  writeToFile :: "jsstring \<Rightarrow> byte list \<Rightarrow> 'w \<Rightarrow> error + 'w"

text \<open>
  The writer object. Its other fields (\<^verbatim>\<open>vertices\<close>, \<^verbatim>\<open>normals\<close>, \<^verbatim>\<open>uvs\<close>, \<^verbatim>\<open>meshes\<close>,
  \<^verbatim>\<open>name\<close>) are set by the constructor and the setters and read by nothing.
\<close>

record FBXWriter =
  out :: jsstring

subsection \<open>The builder methods\<close>

definition int32_record :: "string \<Rightarrow> int \<Rightarrow> FBXNodeRecord" where
  "int32_record nm v = new_record_with (js nm) PROPERTY_INT_32 [JSNumber (of_int v)]"

definition buildCreationTimeStampNode :: "'w sys \<Rightarrow> 'w \<Rightarrow> FBXNodeRecord \<times> 'w" where
  "buildCreationTimeStampNode sys w =
     (let (now, w) = new_Date sys w;
          nrStamp = new_record (js ''CreationTimeStamp'');
          nrStamp = add_children [int32_record ''Version'' 1000] nrStamp;
          nrStamp = add_children [int32_record ''Year'' (getFullYear now)] nrStamp;
          nrStamp = add_children [int32_record ''Month'' (getMonth now + 1)] nrStamp;
          nrStamp = add_children [int32_record ''Day'' (getDate now)] nrStamp;
          nrStamp = add_children [int32_record ''Hour'' (getHours now)] nrStamp;
          nrStamp = add_children [int32_record ''Minute'' (getMinutes now)] nrStamp;
          nrStamp = add_children [int32_record ''Second'' (getSeconds now)] nrStamp;
          nrStamp = add_children [int32_record ''Millisecond'' (getMilliseconds now)] nrStamp
      in (nrStamp, w))"

text \<open>
  \<^verbatim>\<open>createCompound\<close>: the object \<^verbatim>\<open>properties\<close> is the list of its entries in insertion
  order, each a key with its \<^verbatim>\<open>type\<close> and \<^verbatim>\<open>value\<close> strings.
\<close>

definition createCompound ::
  "jsstring \<Rightarrow> (jsstring \<times> jsstring \<times> jsstring) list \<Rightarrow> FBXNodeRecord list" where
  "createCompound nm props =
     new_record_with (js ''P'') PROPERTY_STRING [JSString nm, str ''Compound'', str [], str []]
     # map (\<lambda>(key, ty, v).
         new_record_with (js ''P'') PROPERTY_STRING
           [JSString (nm @ js ''|'' @ key), JSString ty, str [], str [], JSString v]) props"

definition buildSceneInfoNode :: "'w sys \<Rightarrow> FBXWriter \<Rightarrow> 'w \<Rightarrow> FBXNodeRecord \<times> 'w" where
  "buildSceneInfoNode sys this w =
     (let nrSceneInfo = new_record (js ''SceneInfo'');
          nrSceneInfo = add_properties PROPERTY_STRING [str ''GlobalInfoSceneInfo''] nrSceneInfo;
          nrSceneInfo = add_properties PROPERTY_STRING [str ''UserData''] nrSceneInfo;
          nrSceneInfo = add_children
            [new_record_with (js ''Type'') PROPERTY_STRING [str ''UserData'']] nrSceneInfo;
          nrSceneInfo = add_children [int32_record ''Version'' 100] nrSceneInfo;
          nrMeta = new_record (js ''MetaData'');
          nrMeta = add_children [int32_record ''Version'' 100] nrMeta;
          nrMeta = add_children
            (map (\<lambda>key. new_record_with (js key) PROPERTY_STRING [str []])
               [''Title'', ''Subject'', ''Author'', ''Keywords'', ''Revision'', ''Comment''])
            nrMeta;
          base = js ''/'' @ path_basename sys (out this);
          nrProps = new_record (js ''Properties70'');
          nrProps = add_children [FBXProperty_URL (js ''DocumentUrl'') base] nrProps;
          nrProps = add_children [FBXProperty_URL (js ''SrcDocumentUrl'') base] nrProps;
          (now, w) = new_Date sys w;
          timeGMT = format_time
            (padStart 2 (toString (getDate now)))
            (padStart 2 (toString (getUTCMonth now + 1)))
            (toString (getUTCFullYear now))
            (toString (getUTCHours now))
            (padStart 2 (toString (getUTCMinutes now)))
            (padStart 2 (toString (getUTCSeconds now)))
            (padStart 3 (toString (getUTCMilliseconds now)));
          compoundLastSaved =
            [(js ''ApplicationVendor'', js ''KString'', js ''wow.export ''),
             (js ''ApplicationName'', js ''KString'', js ''wow.export''),
             (js ''ApplicationVersion'', js ''KString'', manifest_version sys),
             (js ''DateTime_GMT'', js ''DateTime'', timeGMT)];
          nrProps = add_children
            (createCompound (js ''Original'')
               ((js ''FileName'', js ''KString'', base) # compoundLastSaved)) nrProps;
          nrProps = add_children (createCompound (js ''LastSaved'') compoundLastSaved) nrProps;
          nrSceneInfo = add_children [nrMeta] nrSceneInfo;
          nrSceneInfo = add_children [nrProps] nrSceneInfo
      in (nrSceneInfo, w))"

text \<open>\<^verbatim>\<open>util.format('wow.export v%s %s', manifest.version, manifest.flavour)\<close>.\<close>

definition getApplicationString :: "'w sys \<Rightarrow> jsstring" where
  "getApplicationString sys =
     js ''wow.export v'' @ manifest_version sys @ js '' '' @ manifest_flavour sys"

definition FBX_VERSION :: nat where
  "FBX_VERSION = 7400"

definition buildExtendedHeaderNode :: "'w sys \<Rightarrow> FBXWriter \<Rightarrow> 'w \<Rightarrow> FBXNodeRecord \<times> 'w" where
  "buildExtendedHeaderNode sys this w =
     (let header = new_record (js ''FBXHeaderExtension'');
          header = add_children [int32_record ''FBXHeaderVersion'' 1003] header;
          header = add_children [int32_record ''FBXVersion'' (int FBX_VERSION)] header;
          header = add_children [int32_record ''EncryptionType'' 0] header;
          (stamp, w) = buildCreationTimeStampNode sys w;
          header = add_children [stamp] header;
          header = add_children
            [new_record_with (js ''Creator'') PROPERTY_STRING
               [JSString (getApplicationString sys)]] header;
          (info, w) = buildSceneInfoNode sys this w;
          header = add_children [info] header
      in (header, w))"

text \<open>
  The arithmetic of \<^verbatim>\<open>Math.random() * 255\<close> is that of IEEE 754 doubles: the exact
  product is rounded to the nearest double, ties to the even significand. For a number
  \<open>x \<ge> 1\<close>, \<open>binade_up\<close> counts the halvings that bring it below 2; for \<open>x < 1\<close>,
  \<open>binade_down\<close> counts the doublings that bring it to 1, at most the 1022 of the
  smallest normal double. \<open>ulp x\<close> is the distance between the doubles around \<open>x\<close>, and
  \<open>to_double x\<close> the double nearest to \<open>x\<close>, for \<open>x\<close> below the largest double.
\<close>

primrec binade_up :: "nat \<Rightarrow> rat \<Rightarrow> nat" where
  "binade_up 0 x = 0"
| "binade_up (Suc k) x = (if x < 2 then 0 else Suc (binade_up k (x / 2)))"

primrec binade_down :: "nat \<Rightarrow> rat \<Rightarrow> nat" where
  "binade_down 0 x = 0"
| "binade_down (Suc k) x = (if 1 \<le> x then 0 else Suc (binade_down k (2 * x)))"

definition ulp :: "rat \<Rightarrow> rat" where
  "ulp x =
     (if 1 \<le> x then 2 ^ binade_up 1024 x / 2 ^ 52 else 1 / 2 ^ (binade_down 1022 x + 52))"

definition round_half_even :: "rat \<Rightarrow> int" where
  "round_half_even y =
     (if y - of_int \<lfloor>y\<rfloor> < 1 / 2 then \<lfloor>y\<rfloor>
      else if 1 / 2 < y - of_int \<lfloor>y\<rfloor> then \<lfloor>y\<rfloor> + 1
      else if even \<lfloor>y\<rfloor> then \<lfloor>y\<rfloor> else \<lfloor>y\<rfloor> + 1)"

definition to_double :: "rat \<Rightarrow> rat" where
  "to_double x =
     (if x < 0 then - (of_int (round_half_even (- x / ulp (- x))) * ulp (- x))
      else of_int (round_half_even (x / ulp x)) * ulp x)"

text \<open>
  The loop of \<^verbatim>\<open>buildFileIDNode\<close>: \<open>n\<close> bytes, each
  \<^verbatim>\<open>Math.floor(Math.random() * 255)\<close> stored into a byte of the buffer.
\<close>

primrec random_bytes :: "'w sys \<Rightarrow> nat \<Rightarrow> 'w \<Rightarrow> byte list \<times> 'w" where
  "random_bytes sys 0 w = ([], w)"
| "random_bytes sys (Suc n) w =
     (let (r, w) = Math_random sys w;
          (bs, w) = random_bytes sys n w
      in (of_int \<lfloor>to_double (r * 255)\<rfloor> # bs, w))"

definition buildFileIDNode :: "'w sys \<Rightarrow> 'w \<Rightarrow> FBXNodeRecord \<times> 'w" where
  "buildFileIDNode sys w =
     (let (buf, w) = random_bytes sys 16 w
      in (new_record_with (js ''FileId'') PROPERTY_BINARY [JSBuffer buf], w))"

definition buildCreationTimeNode :: "'w sys \<Rightarrow> 'w \<Rightarrow> FBXNodeRecord \<times> 'w" where
  "buildCreationTimeNode sys w =
     (let (now, w) = new_Date sys w;
          timeGMT = format_time
            (toString (getUTCFullYear now))
            (padStart 2 (toString (getUTCMonth now + 1)))
            (padStart 2 (toString (getDate now)))
            (toString (getUTCHours now))
            (padStart 2 (toString (getUTCMinutes now)))
            (padStart 2 (toString (getUTCSeconds now)))
            (padStart 3 (toString (getUTCMilliseconds now)))
      in (new_record_with (js ''CreationTime'') PROPERTY_STRING [JSString timeGMT], w))"

definition buildCreatorNode :: "'w sys \<Rightarrow> FBXNodeRecord" where
  "buildCreatorNode sys =
     new_record_with (js ''Creator'') PROPERTY_STRING [JSString (getApplicationString sys)]"

definition buildGlobalSettingsNode :: FBXNodeRecord where
  "buildGlobalSettingsNode =
     (let node = new_record (js ''GlobalSettings'');
          node = add_children [int32_record ''Version'' 1000] node;
          props = new_record (js ''Properties70'');
          props = add_children
            [FBXProperty_Integer (js ''UpAxis'') 1,
             FBXProperty_Integer (js ''UpAxisSign'') 1,
             FBXProperty_Integer (js ''FrontAxis'') 2,
             FBXProperty_Integer (js ''FrontAxisSign'') 1,
             FBXProperty_Integer (js ''CoordAxis'') 0,
             FBXProperty_Integer (js ''CoordAxisSign'') 1,
             FBXProperty_Integer (js ''OriginalUpAxis'') (- 1),
             FBXProperty_Integer (js ''OriginalUpAxisSign'') 1,
             FBXProperty_Double (js ''UnitScaleFactor'') 1,
             FBXProperty_Double (js ''OriginalUnitScaleFactor'') 1,
             FBXProperty_ColorRGB (js ''AmbientColor'') 0 0 0,
             FBXProperty_KString (js ''DefaultCamera'') (js ''Producer Perspective''),
             FBXProperty_Enum (js ''TimeMode'') 11,
             FBXProperty_KTime (js ''TimeSpanStart'') 0,
             FBXProperty_KTime (js ''TimeSpanStop'') 46186158000,
             FBXProperty_Double (js ''CustomFrameFrame'') 24] props
      in add_children [props] node)"

definition buildDocumentsNode :: FBXNodeRecord where
  "buildDocumentsNode =
     add_children [int32_record ''Count'' 0] (new_record (js ''Documents''))"

definition geoProps :: "FBXNodeRecord list" where
  "geoProps =
     [FBXProperty_ColorRGB (js ''Color'') 0.8 0.8 0.8,
       FBXProperty_Vector3D (js ''BBoxMin'') 0 0 0,
       FBXProperty_Vector3D (js ''BBoxMax'') 0 0 0,
       FBXProperty_Boolean (js ''Primary Visibility'') True,
       FBXProperty_Boolean (js ''Casts Shadows'') True,
       FBXProperty_Boolean (js ''Receive Shadows'') True]"

definition modelProps :: "FBXNodeRecord list" where
  "modelProps =
     [FBXProperty_Enum (js ''QuaternionInterpolate'') 0,
       FBXProperty_Vector3D (js ''RotationOffset'') 0 0 0,
       FBXProperty_Vector3D (js ''RotationPivot'') 0 0 0,
       FBXProperty_Vector3D (js ''ScalingOffset'') 0 0 0,
       FBXProperty_Vector3D (js ''ScalingPivot'') 0 0 0,
       FBXProperty_Boolean (js ''TranslationActive'') False,
       FBXProperty_Vector3D (js ''TranslationMin'') 0 0 0,
       FBXProperty_Vector3D (js ''TranslationMax'') 0 0 0,
       FBXProperty_Boolean (js ''TranslationMinX'') False,
       FBXProperty_Boolean (js ''TranslationMinY'') False,
       FBXProperty_Boolean (js ''TranslationMinZ'') False,
       FBXProperty_Boolean (js ''TranslationMaxX'') False,
       FBXProperty_Boolean (js ''TranslationMaxY'') False,
       FBXProperty_Boolean (js ''TranslationMaxZ'') False,
       FBXProperty_Boolean (js ''RotationOrder'') False,
       FBXProperty_Boolean (js ''RotationSpaceForLimitOnly'') False,
       FBXProperty_Boolean (js ''RotationStiffnessX'') False,
       FBXProperty_Boolean (js ''RotationStiffnessY'') False,
       FBXProperty_Boolean (js ''RotationStiffnessZ'') False,
       FBXProperty_Boolean (js ''AxisLen'') False,
       FBXProperty_Vector3D (js ''PreRotation'') 0 0 0,
       FBXProperty_Vector3D (js ''PostRotation'') 0 0 0,
       FBXProperty_Boolean (js ''RotationActive'') False,
       FBXProperty_Vector3D (js ''RotationMin'') 0 0 0,
       FBXProperty_Vector3D (js ''RotationMax'') 0 0 0,
       FBXProperty_Boolean (js ''RotationMinX'') False,
       FBXProperty_Boolean (js ''RotationMinY'') False,
       FBXProperty_Boolean (js ''RotationMinZ'') False,
       FBXProperty_Boolean (js ''RotationMaxX'') False,
       FBXProperty_Boolean (js ''RotationMaxY'') False,
       FBXProperty_Boolean (js ''RotationMaxZ'') False,
       FBXProperty_Enum (js ''InheritType'') 0,
       FBXProperty_Boolean (js ''ScalingActive'') False,
       FBXProperty_Vector3D (js ''ScalingMin'') 0 0 0,
       FBXProperty_Vector3D (js ''ScalingMax'') 1 1 1,
       FBXProperty_Boolean (js ''ScalingMinX'') False,
       FBXProperty_Boolean (js ''ScalingMinY'') False,
       FBXProperty_Boolean (js ''ScalingMinZ'') False,
       FBXProperty_Boolean (js ''ScalingMaxX'') False,
       FBXProperty_Boolean (js ''ScalingMaxY'') False,
       FBXProperty_Boolean (js ''ScalingMaxZ'') False,
       FBXProperty_Vector3D (js ''GeometricTranslation'') 0 0 0,
       FBXProperty_Vector3D (js ''GeometricRotation'') 0 0 0,
       FBXProperty_Vector3D (js ''GeometricScaling'') 1 1 1,
       FBXProperty_Double (js ''MinDampRangeX'') 0,
       FBXProperty_Double (js ''MinDampRangeY'') 0,
       FBXProperty_Double (js ''MinDampRangeZ'') 0,
       FBXProperty_Double (js ''MaxDampRangeX'') 0,
       FBXProperty_Double (js ''MaxDampRangeY'') 0,
       FBXProperty_Double (js ''MaxDampRangeZ'') 0,
       FBXProperty_Double (js ''MinDampStrengthX'') 0,
       FBXProperty_Double (js ''MinDampStrengthY'') 0,
       FBXProperty_Double (js ''MinDampStrengthZ'') 0,
       FBXProperty_Double (js ''MaxDampStrengthX'') 0,
       FBXProperty_Double (js ''MaxDampStrengthY'') 0,
       FBXProperty_Double (js ''MaxDampStrengthZ'') 0,
       FBXProperty_Double (js ''PreferedAngleX'') 0,
       FBXProperty_Double (js ''PreferedAngleY'') 0,
       FBXProperty_Double (js ''PreferedAngleZ'') 0,
       FBXProperty_Object (js ''LookAtProperty''),
       FBXProperty_Object (js ''UpVectorProperty''),
       FBXProperty_Boolean (js ''Show'') True,
       FBXProperty_Boolean (js ''NegativePercentShapeSupport'') True,
       FBXProperty_Integer (js ''DefaultAttributeIndex'') (- 1),
       FBXProperty_Boolean (js ''Freeze'') False,
       FBXProperty_Boolean (js ''LODBox'') False,
       FBXProperty_LCLVector (js ''Lcl Translation'') 0 0 0,
       FBXProperty_LCLVector (js ''Lcl Rotation'') 0 0 0,
       FBXProperty_LCLVector (js ''Lcl Scaling'') 0 0 0]"

definition buildDefinitionsNode :: FBXNodeRecord where
  "buildDefinitionsNode =
     (let node = new_record (js ''Definitions'');
          node = add_children [int32_record ''Version'' 100] node;
          node = add_children [int32_record ''Count'' 3] node;
          settings = new_record (js ''ObjectType'');
          settings = add_properties PROPERTY_STRING [str ''GlobalSettings''] settings;
          settings = add_children [int32_record ''Count'' 1] settings;
          node = add_children [settings] node;
          geo = new_record (js ''ObjectType'');
          geo = add_properties PROPERTY_STRING [str ''Geometry''] geo;
          geo = add_children [int32_record ''Count'' 1] geo;
          geoPropsTemplate =
            new_record_with (js ''PropertyTemplate'') PROPERTY_STRING [str ''FbxMesh''];
          geoPropsTemplate = add_children
            [add_children geoProps (new_record (js ''Properties70''))] geoPropsTemplate;
          geo = add_children [geoPropsTemplate] geo;
          node = add_children [geo] node;
          model = new_record (js ''ObjectType'');
          model = add_properties PROPERTY_STRING [str ''Model''] model;
          model = add_children [int32_record ''Count'' 1] model;
          modelPropsTemplate =
            new_record_with (js ''PropertyTemplate'') PROPERTY_STRING [str ''FbxNode''];
          visibility = new_record (js ''P'');
          visibility = add_properties PROPERTY_STRING
            [str ''Visibility'', str ''Visibility'', str [], str ''A''] visibility;
          visibility = add_properties PROPERTY_DOUBLE [JSNumber 1] visibility;
          visibilityInheritance = new_record (js ''P'');
          visibilityInheritance = add_properties PROPERTY_STRING
            [str ''Visibility Inheritance'', str ''Visibility Inheritance'', str [], str []]
            visibilityInheritance;
          visibilityInheritance =
            add_properties PROPERTY_INT_32 [JSNumber 1] visibilityInheritance;
          modelPropsTemplate = add_children
            [add_children (modelProps @ [visibility, visibilityInheritance])
               (new_record (js ''Properties70''))] modelPropsTemplate;
          model = add_children [modelPropsTemplate] model;
          node = add_children [model] node
      in node)"

definition buildTakesNode :: FBXNodeRecord where
  "buildTakesNode =
     add_children [new_record_with (js ''Current'') PROPERTY_STRING [str []]]
       (new_record (js ''Takes''))"

definition buildConnectionsNode :: FBXNodeRecord where
  "buildConnectionsNode = new_record (js ''Connections'')"

definition buildObjectsNode :: FBXNodeRecord where
  "buildObjectsNode = new_record (js ''Objects'')"

text \<open>\<^verbatim>\<open>buildNodeTree\<close>: the root set, in the order of its additions.\<close>

definition buildNodeTree :: "'w sys \<Rightarrow> FBXWriter \<Rightarrow> 'w \<Rightarrow> FBXNodeRecord list \<times> 'w" where
  "buildNodeTree sys this w =
     (let (header, w) = buildExtendedHeaderNode sys this w;
          (fileId, w) = buildFileIDNode sys w;
          (creationTime, w) = buildCreationTimeNode sys w
      in ([header, fileId, creationTime, buildCreatorNode sys, buildGlobalSettingsNode,
           buildDocumentsNode, new_record (js ''References''), buildDefinitionsNode,
           buildObjectsNode, buildConnectionsNode, buildTakesNode], w))"

section \<open>Writing the file\<close>

text \<open>
  The part of \<^verbatim>\<open>write\<close> (here \<open>write_fbx\<close>) between the construction of the tree and the flush: sizing, the
  allocation of \<^verbatim>\<open>treeSize + 27\<close> bytes, the preamble and the root records.
\<close>

definition magic :: jsstring where
  "magic = js ''Kaydara FBX Binary  '' @ [0]"

text \<open>The 27 bytes written before the first record.\<close>

definition preamble :: "byte list" where
  "preamble = [0x4B, 0x61, 0x79, 0x64, 0x61, 0x72, 0x61, 0x20, 0x46, 0x42, 0x58, 0x20,
               0x42, 0x69, 0x6E, 0x61, 0x72, 0x79, 0x20, 0x20, 0x00,
               0x1A, 0x00, 0xE8, 0x1C, 0x00, 0x00]"

definition serialize :: "ieee754 \<Rightarrow> FBXNodeRecord list \<Rightarrow> error + BufferWrapper" where
  "serialize fp tree =
     and_then (calculateNodeTreeSize_Set tree) (\<lambda>(treeSize, tree).
     and_then (writeString (JSString magic) (alloc (treeSize + 27))) (\<lambda>buf.
     and_then (writeUInt8 0x1A buf) (\<lambda>buf.
     and_then (writeUInt8 0x00 buf) (\<lambda>buf.
     and_then (writeUInt32LE FBX_VERSION buf) (\<lambda>buf.
     writeNodes fp tree buf)))))"

definition write_fbx :: "'w sys \<Rightarrow> ieee754 \<Rightarrow> FBXWriter \<Rightarrow> bool \<Rightarrow> 'w \<Rightarrow> error + 'w" where
  "write_fbx sys fp this overwrite w =
     (if \<not> overwrite \<and> fileExists sys (out this) w then Inr w
      else
        and_then (createDirectory sys (path_dirname sys (out this)) w) (\<lambda>w.
        let (tree, w) = buildNodeTree sys this w in
        and_then (serialize fp tree) (\<lambda>buf.
        writeToFile sys (out this) (data buf) w)))"

section \<open>The bytes of a record\<close>

text \<open>
  The byte sequences that the write pass produces, as pure functions of a record and of
  the offset at which it starts. The lemmas \<open>writeNode_Inr\<close> and \<open>writeNode_writable\<close>
  below prove that \<open>writeNode\<close> writes exactly these bytes; statements about the
  written file are made through them.
\<close>

definition int_bytes :: "nat \<Rightarrow> int \<Rightarrow> byte list" where
  "int_bytes k v = le_bytes k (nat (v mod 2 ^ (8 * k)))"

fun property_bytes :: "ieee754 \<Rightarrow> Property \<Rightarrow> byte list" where
  "property_bytes fp (Property t v) = le_bytes 1 (type_code t) @
     (case t of
        PROPERTY_INT_16 \<Rightarrow> (case v of JSNumber r \<Rightarrow> int_bytes 2 \<lfloor>r\<rfloor> | _ \<Rightarrow> [])
      | PROPERTY_INT_32 \<Rightarrow> (case v of JSNumber r \<Rightarrow> int_bytes 4 \<lfloor>r\<rfloor> | _ \<Rightarrow> [])
      | PROPERTY_INT_64 \<Rightarrow> (case BigInt v of Inr n \<Rightarrow> int_bytes 8 n | Inl e \<Rightarrow> [])
      | PROPERTY_FLOAT \<Rightarrow>
          (case v of JSNumber r \<Rightarrow> le_bytes 4 (unat (float32_bits fp r)) | _ \<Rightarrow> [])
      | PROPERTY_DOUBLE \<Rightarrow>
          (case v of JSNumber r \<Rightarrow> le_bytes 8 (unat (float64_bits fp r)) | _ \<Rightarrow> [])
      | PROPERTY_BOOLEAN \<Rightarrow> le_bytes 1 (if truthy v then 1 else 0)
      | PROPERTY_STRING \<Rightarrow>
          (case v of JSString s \<Rightarrow> le_bytes 4 (length (utf8 s)) @ utf8 s | _ \<Rightarrow> [])
      | PROPERTY_BINARY \<Rightarrow> (case v of JSBuffer b \<Rightarrow> le_bytes 4 (length b) @ b | _ \<Rightarrow> [])
      | _ \<Rightarrow> [])"

definition properties_bytes :: "ieee754 \<Rightarrow> Property list \<Rightarrow> byte list" where
  "properties_bytes fp ps = concat (map (property_bytes fp) ps)"

definition header_bytes :: "nat \<Rightarrow> FBXNodeRecord \<Rightarrow> byte list" where
  "header_bytes off n =
     le_bytes 4 (off + (case size_fld n of None \<Rightarrow> 0 | Some s \<Rightarrow> s)) @
     le_bytes 4 (length (properties n)) @
     le_bytes 4 (case propertySize n of None \<Rightarrow> 0 | Some p \<Rightarrow> p) @
     le_bytes 1 (length (utf8 (name n))) @ utf8 (name n)"

fun node_bytes :: "ieee754 \<Rightarrow> nat \<Rightarrow> FBXNodeRecord \<Rightarrow> byte list"
  and nodes_bytes :: "ieee754 \<Rightarrow> nat \<Rightarrow> FBXNodeRecord list \<Rightarrow> byte list"
where
  "node_bytes fp off (FBXNodeRecord nm ps cs sz psz) =
     (let hdr = header_bytes off (FBXNodeRecord nm ps cs sz psz) @ properties_bytes fp ps
      in hdr @ nodes_bytes fp (off + length hdr) cs @
         (if length cs > 0 then replicate 13 0 else []))"
| "nodes_bytes fp off [] = []"
| "nodes_bytes fp off (c # cs) =
     (let bs = node_bytes fp off c in bs @ nodes_bytes fp (off + length bs) cs)"

section \<open>Well-formed records\<close>

text \<open>
  A property whose value has the shape of its type and fits the width of its field. The
  array types have no well-formed property: the size calculator fails on them.
\<close>

fun wf_property :: "Property \<Rightarrow> bool" where
  "wf_property (Property t v) =
     (case t of
        PROPERTY_INT_16 \<Rightarrow>
          (case v of JSNumber r \<Rightarrow> r = of_int \<lfloor>r\<rfloor> \<and> - (2 ^ 15) \<le> \<lfloor>r\<rfloor> \<and> \<lfloor>r\<rfloor> < 2 ^ 15
           | _ \<Rightarrow> False)
      | PROPERTY_INT_32 \<Rightarrow>
          (case v of JSNumber r \<Rightarrow> r = of_int \<lfloor>r\<rfloor> \<and> - (2 ^ 31) \<le> \<lfloor>r\<rfloor> \<and> \<lfloor>r\<rfloor> < 2 ^ 31
           | _ \<Rightarrow> False)
      | PROPERTY_INT_64 \<Rightarrow>
          (case BigInt v of Inr n \<Rightarrow> - (2 ^ 63) \<le> n \<and> n < 2 ^ 63 | Inl e \<Rightarrow> False)
      | PROPERTY_FLOAT \<Rightarrow> (case v of JSNumber r \<Rightarrow> True | _ \<Rightarrow> False)
      | PROPERTY_DOUBLE \<Rightarrow> (case v of JSNumber r \<Rightarrow> True | _ \<Rightarrow> False)
      | PROPERTY_BOOLEAN \<Rightarrow> True
      | PROPERTY_STRING \<Rightarrow> (case v of JSString s \<Rightarrow> length (utf8 s) < 2 ^ 32 | _ \<Rightarrow> False)
      | PROPERTY_BINARY \<Rightarrow> (case v of JSBuffer b \<Rightarrow> length b < 2 ^ 32 | _ \<Rightarrow> False)
      | _ \<Rightarrow> False)"

text \<open>
  A tree of records with well-formed properties whose names are ASCII and shorter than
  256 characters.
\<close>

fun wf_node :: "FBXNodeRecord \<Rightarrow> bool" where
  "wf_node (FBXNodeRecord nm ps cs sz psz) =
     (list_all (\<lambda>c. c < 0x80) nm \<and> length nm < 2 ^ 8 \<and> list_all wf_property ps \<and>
      list_all wf_node cs)"

text \<open>
  A sized tree that the writer can write at offset \<open>off\<close>: both computed fields are
  present and every header field fits its width.
\<close>

fun writable :: "ieee754 \<Rightarrow> nat \<Rightarrow> FBXNodeRecord \<Rightarrow> bool"
  and writables :: "ieee754 \<Rightarrow> nat \<Rightarrow> FBXNodeRecord list \<Rightarrow> bool"
where
  "writable fp off (FBXNodeRecord nm ps cs sz psz) =
     (case sz of None \<Rightarrow> False | Some s \<Rightarrow>
      case psz of None \<Rightarrow> False | Some p \<Rightarrow>
        off + s < 2 ^ 32 \<and> length ps < 2 ^ 32 \<and> p < 2 ^ 32 \<and> length (utf8 nm) < 2 ^ 8 \<and>
        list_all wf_property ps \<and>
        writables fp
          (off + length (header_bytes off (FBXNodeRecord nm ps cs sz psz) @ properties_bytes fp ps))
          cs)"
| "writables fp off [] = True"
| "writables fp off (c # cs) =
     (writable fp off c \<and> writables fp (off + length (node_bytes fp off c)) cs)"

text \<open>A tree that holds a property of an array type somewhere.\<close>

fun has_array_property :: "FBXNodeRecord \<Rightarrow> bool" where
  "has_array_property (FBXNodeRecord nm ps cs sz psz) =
     (list_ex (\<lambda>p. type_isArray (ptype p)) ps \<or> list_ex has_array_property cs)"

section \<open>Object identity: the store\<close>

text \<open>
  The class \<^verbatim>\<open>FBXNodeRecord\<close> keeps its properties and children in \<^verbatim>\<open>Set\<close> objects, which
  compare objects by identity and keep insertion order. For the constructor and the two
  methods, records and property objects therefore live in a store under references, and
  a set of objects is the duplicate-free list of their references.
\<close>

type_synonym ref = nat

record node_object =
  obj_name :: jsstring
  obj_properties :: "ref list"
  obj_children :: "ref list"
  obj_size :: "nat option"
  obj_propertySize :: "nat option"

record store =
  records :: "ref \<rightharpoonup> node_object"
  props :: "ref \<rightharpoonup> Property"
  fresh :: ref

text \<open>\<^verbatim>\<open>Set.prototype.add\<close>.\<close>

definition Set_add :: "ref \<Rightarrow> ref list \<Rightarrow> ref list" where
  "Set_add x xs = (if x \<in> set xs then xs else xs @ [x])"

definition update_record :: "ref \<Rightarrow> (node_object \<Rightarrow> node_object) \<Rightarrow> store \<Rightarrow> store" where
  "update_record r f st =
     (case records st r of None \<Rightarrow> st | Some obj \<Rightarrow> st\<lparr>records := (records st)(r \<mapsto> f obj)\<rparr>)"

text \<open>The object literal \<^verbatim>\<open>{ type, value }\<close>: a new object on every evaluation.\<close>

definition new_property :: "PropertyType \<Rightarrow> jsvalue \<Rightarrow> store \<Rightarrow> ref \<times> store" where
  "new_property t v st =
     (fresh st, st\<lparr>props := (props st)(fresh st \<mapsto> Property t v), fresh := Suc (fresh st)\<rparr>)"

fun addProperty :: "ref \<Rightarrow> PropertyType \<Rightarrow> jsvalue list \<Rightarrow> store \<Rightarrow> store" where
  "addProperty this t [] st = st"
| "addProperty this t (v # vs) st =
     (let (p, st) = new_property t v st;
          st = update_record this
                 (\<lambda>obj. obj\<lparr>obj_properties := Set_add p (obj_properties obj)\<rparr>) st
      in addProperty this t vs st)"

text \<open>\<^verbatim>\<open>addChild\<close> returns \<^verbatim>\<open>children[0]\<close>, which is \<^verbatim>\<open>undefined\<close> without arguments.\<close>

fun add_each_child :: "ref \<Rightarrow> ref list \<Rightarrow> store \<Rightarrow> store" where
  "add_each_child this [] st = st"
| "add_each_child this (child # cs) st =
     add_each_child this cs
       (update_record this (\<lambda>obj. obj\<lparr>obj_children := Set_add child (obj_children obj)\<rparr>) st)"

definition addChild :: "ref \<Rightarrow> ref list \<Rightarrow> store \<Rightarrow> ref option \<times> store" where
  "addChild this cs st =
     ((case cs of [] \<Rightarrow> None | c # _ \<Rightarrow> Some c), add_each_child this cs st)"

text \<open>The constructor, with or without the single property type and its values.\<close>

definition new_FBXNodeRecord ::
  "jsstring \<Rightarrow> (PropertyType \<times> jsvalue list) option \<Rightarrow> store \<Rightarrow> ref \<times> store" where
  "new_FBXNodeRecord nm single st =
     (let this = fresh st;
          st = st\<lparr>records := (records st)(this \<mapsto>
                 \<lparr>obj_name = nm, obj_properties = [], obj_children = [],
                  obj_size = None, obj_propertySize = None\<rparr>),
               fresh := Suc this\<rparr>
      in (this, case single of None \<Rightarrow> st | Some (t, vs) \<Rightarrow> addProperty this t vs st))"

text \<open>
  The tree that the loops \<^verbatim>\<open>for (const property of node.properties)\<close> and
  \<^verbatim>\<open>for (const child of node.children)\<close> visit from a record, read to depth \<open>k\<close>;
  \<open>None\<close> when the depth does not suffice (as on a cycle) or a reference dangles.
\<close>

fun snapshot :: "nat \<Rightarrow> store \<Rightarrow> ref \<Rightarrow> FBXNodeRecord option" where
  "snapshot 0 st r = None"
| "snapshot (Suc k) st r =
     (case records st r of
        None \<Rightarrow> None
      | Some obj \<Rightarrow>
          (case those (map (props st) (obj_properties obj)) of
             None \<Rightarrow> None
           | Some ps \<Rightarrow>
               (case those (map (snapshot k st) (obj_children obj)) of
                  None \<Rightarrow> None
                | Some cs \<Rightarrow>
                    Some (FBXNodeRecord (obj_name obj) ps cs
                            (obj_size obj) (obj_propertySize obj)))))"

section \<open>Example environments\<close>

text \<open>Concrete parameters for the examples: encoders, a clock reading and a small world.\<close>

definition example_fp :: ieee754 where
  "example_fp = \<lparr>float32_bits = (\<lambda>r. 0), float64_bits = (\<lambda>r. 0)\<rparr>"

definition example_date :: "int \<Rightarrow> Date" where
  "example_date hour =
     \<lparr>getFullYear = 2020, getMonth = 0, getDate = 5, getHours = hour, getMinutes = 7,
      getSeconds = 8, getMilliseconds = 9, getUTCFullYear = 2020, getUTCMonth = 0,
      getUTCHours = hour, getUTCMinutes = 7, getUTCSeconds = 8, getUTCMilliseconds = 9\<rparr>"

text \<open>
  A world that is the list of the paths that exist; the clock always shows the given
  hour of 5 January 2020 and the random number generator always returns 0.
\<close>

definition example_sys :: "int \<Rightarrow> (jsstring list) sys" where
  "example_sys hour =
     \<lparr>new_Date = (\<lambda>w. (example_date hour, w)),
      Math_random = (\<lambda>w. (0, w)),
      manifest_version = js ''0.1.0'',
      manifest_flavour = js ''win'',
      path_basename = (\<lambda>p. js ''a.fbx''),
      path_dirname = (\<lambda>p. js ''d''),
      fileExists = (\<lambda>p w. p \<in> set w),
      createDirectory = (\<lambda>p w. Inr (p # w)),
      writeToFile = (\<lambda>p bs w. Inr (p # w))\<rparr>"

definition example_writer :: FBXWriter where
  "example_writer = \<lparr>out = js ''d/a.fbx''\<rparr>"

text \<open>
  A store built by the constructor and \<^verbatim>\<open>addChild\<close>: a record \<^verbatim>\<open>A\<close> with one property and
  one child, and three records \<^verbatim>\<open>B\<close> constructed alike, the first of which is that child.
\<close>

definition example_store :: store where
  "example_store =
     (let (a, st) = new_FBXNodeRecord (js ''A'') (Some (PROPERTY_INT_32, [JSNumber 7]))
                      \<lparr>records = Map.empty, props = Map.empty, fresh = 0\<rparr>;
          (d, st) = new_FBXNodeRecord (js ''B'') None st;
          (c, st) = new_FBXNodeRecord (js ''B'') None st;
          (e, st) = new_FBXNodeRecord (js ''B'') None st
      in snd (addChild a [d] st))"



section \<open>Lemmas about the buffer and the writer\<close>

lemma and_then_simps [simp]: "and_then (Inl e) f = Inl e" "and_then (Inr x) f = f x"
  by (simp_all add: and_then_def)

lemma and_then_Inr_iff: "and_then m f = Inr y \<longleftrightarrow> (\<exists>x. m = Inr x \<and> f x = Inr y)"
  by (cases m) auto

lemma and_then_assoc: "and_then (and_then m f) g = and_then m (\<lambda>x. and_then (f x) g)"
  by (cases m) auto

lemma length_le_bytes [simp]: "length (le_bytes k v) = k"
  by (induction k arbitrary: v) auto

lemma writeBuffer_Inr_iff:
  "writeBuffer bs b = Inr b' \<longleftrightarrow>
     offset b + length bs \<le> length (data b) \<and>
     b' = \<lparr>data = take (offset b) (data b) @ bs @ drop (offset b + length bs) (data b),
           offset = offset b + length bs\<rparr>"
  by (auto simp: writeBuffer_def)

lemma writeBuffer_Nil [simp]: "offset b \<le> length (data b) \<Longrightarrow> writeBuffer [] b = Inr b"
  by (simp add: writeBuffer_def)

lemma writeBuffer_offset: "writeBuffer bs b = Inr b' \<Longrightarrow> offset b' = offset b + length bs"
  by (auto simp: writeBuffer_Inr_iff)

lemma writeBuffer_append:
  "and_then (writeBuffer xs b) (writeBuffer ys) = writeBuffer (xs @ ys) b"
  by (cases xs) (auto simp: writeBuffer_def min_def ac_simps)

lemma writeBuffer_chain:
  assumes "\<And>b1. writeBuffer xs b = Inr b1 \<Longrightarrow> f b1 = writeBuffer ys b1"
  shows "and_then (writeBuffer xs b) f = writeBuffer (xs @ ys) b"
proof (cases "writeBuffer xs b")
  case (Inl e)
  then show ?thesis by (auto simp: writeBuffer_def split: if_splits)
next
  case (Inr b1)
  then have "f b1 = writeBuffer ys b1" by (rule assms)
  with Inr show ?thesis using writeBuffer_append [of xs b ys] by simp
qed

lemma writeBuffer_bound: "writeBuffer xs b = Inr b1 \<Longrightarrow> offset b1 \<le> length (data b1)"
  by (auto simp: writeBuffer_Inr_iff)

lemma writeBuffer_append2:
  "and_then (writeBuffer xs b) (\<lambda>b. and_then (writeBuffer ys b) f) =
   and_then (writeBuffer (xs @ ys) b) f"
  by (simp add: writeBuffer_append [symmetric] and_then_assoc)

lemma and_then_Inr [simp]: "and_then m Inr = m"
  by (cases m) auto

lemma writeBuffer_then:
  "writeBuffer xs b = Inr b1 \<Longrightarrow> writeBuffer ys b1 = Inr b2 \<Longrightarrow> writeBuffer (xs @ ys) b = Inr b2"
  using writeBuffer_append [of xs b ys] by simp

lemma type_code_lt: "type_code t < 256"
  by (cases t) simp_all

lemma writeUInt8_eq: "v < 256 \<Longrightarrow> writeUInt8 v b = writeBuffer (le_bytes 1 v) b"
  by (simp add: writeUInt8_def)

lemma writeUInt32LE_eq: "v < 2 ^ 32 \<Longrightarrow> writeUInt32LE v b = writeBuffer (le_bytes 4 v) b"
  by (simp add: writeUInt32LE_def)

lemma writeUInt8_Inr: "writeUInt8 v b = Inr b' \<Longrightarrow> writeBuffer (le_bytes 1 v) b = Inr b'"
  by (simp add: writeUInt8_def split: if_splits)

lemma writeUInt32LE_Inr: "writeUInt32LE v b = Inr b' \<Longrightarrow> writeBuffer (le_bytes 4 v) b = Inr b'"
  by (simp add: writeUInt32LE_def split: if_splits)

lemma writeString_JSString: "writeString (JSString s) = writeBuffer (utf8 s)"
  by (rule ext) (simp add: writeString_def)

lemma writeBuffer_value_JSBuffer: "writeBuffer_value (JSBuffer bs) = writeBuffer bs"
  by (rule ext) (simp add: writeBuffer_value_def)

lemma writeProperty_wf:
  "wf_property p \<Longrightarrow> writeProperty fp p b = writeBuffer (property_bytes fp p) b"
proof (cases p)
  case (Property t v)
  assume wf: "wf_property p"
  have code: "writeUInt8 (type_code t) b = writeBuffer (le_bytes 1 (type_code t)) b"
    by (rule writeUInt8_eq [OF type_code_lt])
  show ?thesis
    using wf unfolding Property
    by (cases t; cases v)
       (simp_all add: code writeBuffer_append writeInt16LE_def writeInt32LE_def writeInt64LE_def
          writeIntLE_def int_bytes_def writeFloatLE_def writeDoubleLE_def writeUInt8_eq
          writeUInt32LE_eq writeString_JSString writeBuffer_value_JSBuffer
          split: if_splits option.splits)
qed

lemma writeProperty_Inr:
  "writeProperty fp p b = Inr b' \<Longrightarrow> writeBuffer (property_bytes fp p) b = Inr b'"
proof (cases p)
  case (Property t v)
  assume w: "writeProperty fp p b = Inr b'"
  then obtain b1 where b1: "writeUInt8 (type_code t) b = Inr b1"
    and rest: "(case t of
         PROPERTY_INT_16 \<Rightarrow> writeInt16LE v b1
       | PROPERTY_INT_32 \<Rightarrow> writeInt32LE v b1
       | PROPERTY_INT_64 \<Rightarrow> and_then (BigInt v) (\<lambda>n. writeInt64LE n b1)
       | PROPERTY_FLOAT \<Rightarrow> writeFloatLE fp v b1
       | PROPERTY_DOUBLE \<Rightarrow> writeDoubleLE fp v b1
       | PROPERTY_BOOLEAN \<Rightarrow> writeUInt8 (if truthy v then 0x01 else 0x00) b1
       | PROPERTY_STRING \<Rightarrow>
           and_then (Buffer_byteLength v) (\<lambda>n.
           and_then (writeUInt32LE n b1) (\<lambda>buf. writeString v buf))
       | PROPERTY_BINARY \<Rightarrow>
           (case value_byteLength v of
              None \<Rightarrow> Inl NotANumber
            | Some n \<Rightarrow> and_then (writeUInt32LE n b1) (\<lambda>buf. writeBuffer_value v buf))
       | _ \<Rightarrow> Inr b1) = Inr b'"
    unfolding Property by (auto simp: and_then_Inr_iff)
  have c: "writeBuffer (le_bytes 1 (type_code t)) b = Inr b1"
    by (rule writeUInt8_Inr [OF b1])
  have le: "offset b1 \<le> length (data b1)"
    using c by (auto simp: writeBuffer_Inr_iff)
  have "\<exists>ys. property_bytes fp p = le_bytes 1 (type_code t) @ ys \<and> writeBuffer ys b1 = Inr b'"
    using rest le unfolding Property
    by (cases t; cases v)
       (auto simp: and_then_Inr_iff writeInt16LE_def writeInt32LE_def writeInt64LE_def
          writeIntLE_def int_bytes_def writeFloatLE_def writeDoubleLE_def writeUInt8_def
          writeUInt32LE_def writeString_def writeBuffer_value_def
          intro: writeBuffer_then split: if_splits option.splits)
  then obtain ys where eq: "property_bytes fp p = le_bytes 1 (type_code t) @ ys"
    and ys: "writeBuffer ys b1 = Inr b'" by blast
  have "writeBuffer (le_bytes 1 (type_code t) @ ys) b = Inr b'"
    by (rule writeBuffer_then [OF c ys])
  then show ?thesis by (simp only: eq)
qed

lemma writeProperties_wf:
  "list_all wf_property ps \<Longrightarrow> offset b \<le> length (data b) \<Longrightarrow>
   writeProperties fp ps b = writeBuffer (properties_bytes fp ps) b"
proof (induction ps arbitrary: b)
  case Nil
  then show ?case by (simp add: properties_bytes_def)
next
  case (Cons p ps)
  have "and_then (writeBuffer (property_bytes fp p) b) (writeProperties fp ps) =
        writeBuffer (property_bytes fp p @ properties_bytes fp ps) b"
    using Cons.prems(1) by (intro writeBuffer_chain Cons.IH) (auto dest: writeBuffer_bound)
  then show ?case using Cons.prems(1) by (simp add: writeProperty_wf properties_bytes_def)
qed

lemma writeProperties_Inr:
  "writeProperties fp ps b = Inr b' \<Longrightarrow> offset b \<le> length (data b) \<Longrightarrow>
   writeBuffer (properties_bytes fp ps) b = Inr b'"
proof (induction ps arbitrary: b)
  case Nil
  then show ?case by (simp add: properties_bytes_def)
next
  case (Cons p ps)
  from Cons.prems(1) obtain b1 where p: "writeProperty fp p b = Inr b1"
    and ps: "writeProperties fp ps b1 = Inr b'"
    by (auto simp: and_then_Inr_iff)
  have w: "writeBuffer (property_bytes fp p) b = Inr b1" by (rule writeProperty_Inr [OF p])
  have "writeBuffer (properties_bytes fp ps) b1 = Inr b'"
    by (rule Cons.IH [OF ps writeBuffer_bound [OF w]])
  with w show ?case by (simp add: properties_bytes_def writeBuffer_then)
qed

lemma write_zeros_eq: "write_zeros (Suc n) b = writeBuffer (replicate (Suc n) 0) b"
proof (induction n arbitrary: b)
  case 0
  have "write_zeros 0 = Inr" by (rule ext) simp
  then show ?case by (simp add: writeUInt8_def)
next
  case (Suc n)
  have "write_zeros (Suc (Suc n)) b = and_then (writeBuffer [0] b) (write_zeros (Suc n))"
    by (simp add: writeUInt8_def)
  also have "\<dots> = writeBuffer ([0] @ replicate (Suc n) 0) b"
    by (intro writeBuffer_chain Suc.IH)
  finally show ?case by simp
qed

lemma write_zeros_13: "write_zeros 13 b = writeBuffer (replicate 13 0) b"
  using write_zeros_eq [of 12 b] by simp

lemma length_header_bytes [simp]:
  "length (header_bytes off n) = 13 + length (utf8 (name n))"
  by (simp add: header_bytes_def)

lemma writeNode_writable:
  "writable fp (offset b) n \<Longrightarrow> writeNode fp n b = writeBuffer (node_bytes fp (offset b) n) b"
  "writables fp (offset b) cs \<Longrightarrow> offset b \<le> length (data b) \<Longrightarrow>
     writeNodes fp cs b = writeBuffer (nodes_bytes fp (offset b) cs) b"
proof (induction fp n b and fp cs b rule: writeNode_writeNodes.induct)
  case (1 fp nm ps cs sz psz buf)
  let ?n = "FBXNodeRecord nm ps cs sz psz"
  from "1.prems" obtain s p where sz: "sz = Some s" and psz: "psz = Some p"
    by (auto split: option.splits)
  let ?hdr = "header_bytes (offset buf) ?n"
  let ?pbs = "properties_bytes fp ps"
  let ?off = "offset buf + length (?hdr @ ?pbs)"
  let ?tl = "if length cs > 0 then replicate 13 0 else ([]::byte list)"
  from "1.prems" sz psz have r: "offset buf + s < 2 ^ 32" "length ps < 2 ^ 32" "p < 2 ^ 32"
    "length (utf8 nm) < 2 ^ 8" "list_all wf_property ps" "writables fp ?off cs"
    by simp_all
  have tail: "and_then (writeNodes fp cs b1)
                (\<lambda>buf. if length cs > 0 then write_zeros 13 buf else Inr buf) =
              writeBuffer (nodes_bytes fp ?off cs @ ?tl) b1"
    if b1: "writeBuffer (?hdr @ ?pbs) buf = Inr b1" for b1
  proof -
    have o: "offset b1 = ?off" using b1 by (rule writeBuffer_offset)
    have le: "offset b1 \<le> length (data b1)" using b1 by (rule writeBuffer_bound)
    have "writeNodes fp cs b1 = writeBuffer (nodes_bytes fp ?off cs) b1"
      using "1.IH" [OF sz psz, of b1] r(6) le o by simp
    moreover have "(if length cs > 0 then write_zeros 13 b2 else Inr b2) = writeBuffer ?tl b2"
      if "writeBuffer (nodes_bytes fp ?off cs) b1 = Inr b2" for b2
      using writeBuffer_bound [OF that] by (simp add: write_zeros_13)
    ultimately show ?thesis by (simp add: writeBuffer_chain)
  qed
  have props: "and_then (writeProperties fp ps b1) (\<lambda>buf. and_then (writeNodes fp cs buf)
                (\<lambda>buf. if length cs > 0 then write_zeros 13 buf else Inr buf)) =
              writeBuffer (?pbs @ nodes_bytes fp ?off cs @ ?tl) b1"
    if b1: "writeBuffer ?hdr buf = Inr b1" for b1
  proof -
    have "writeProperties fp ps b1 = writeBuffer ?pbs b1"
      using r(5) writeBuffer_bound [OF b1] by (rule writeProperties_wf)
    moreover have "and_then (writeNodes fp cs b2)
                (\<lambda>buf. if length cs > 0 then write_zeros 13 buf else Inr buf) =
              writeBuffer (nodes_bytes fp ?off cs @ ?tl) b2"
      if "writeBuffer ?pbs b1 = Inr b2" for b2
      using tail [of b2] writeBuffer_then [OF b1 that] by simp
    ultimately show ?thesis by (simp add: writeBuffer_chain)
  qed
  have hdr: "writeNode fp ?n buf =
      and_then (writeBuffer ?hdr buf) (\<lambda>buf. and_then (writeProperties fp ps buf)
        (\<lambda>buf. and_then (writeNodes fp cs buf)
                (\<lambda>buf. if length cs > 0 then write_zeros 13 buf else Inr buf)))"
    using r(1-4)
    by (simp add: sz psz header_bytes_def writeUInt32LE_eq writeUInt8_eq writeString_JSString
          writeBuffer_append2)
  show ?case
    unfolding hdr using props
    by (simp add: writeBuffer_chain Let_def)
next
  case (2 fp buf)
  then show ?case by simp
next
  case (3 fp c cs buf)
  from "3.prems" have c: "writable fp (offset buf) c"
    and cs: "writables fp (offset buf + length (node_bytes fp (offset buf) c)) cs"
    by simp_all
  have "writeNode fp c buf = writeBuffer (node_bytes fp (offset buf) c) buf"
    using c by (rule "3.IH"(1))
  moreover have "writeNodes fp cs b1 =
      writeBuffer (nodes_bytes fp (offset buf + length (node_bytes fp (offset buf) c)) cs) b1"
    if "writeBuffer (node_bytes fp (offset buf) c) buf = Inr b1" for b1
    using "3.IH"(2) [of b1] cs writeBuffer_offset [OF that] writeBuffer_bound [OF that]
    by simp
  ultimately show ?case by (simp add: writeBuffer_chain Let_def)
qed

lemma utf8_unit_ascii: "c < 0x80 \<Longrightarrow> utf8_unit c = [of_nat (unat c)]"
  by (simp add: utf8_unit_def word_less_nat_alt)

lemma not_high_ascii: "c < 0x80 \<Longrightarrow> \<not> is_high_surrogate c"
  by (simp add: is_high_surrogate_def word_less_nat_alt)

lemma utf8_ascii: "list_all (\<lambda>c. c < 0x80) s \<Longrightarrow> utf8 s = map (\<lambda>c. of_nat (unat c)) s"
  by (induction s rule: utf8.induct) (simp_all add: utf8_unit_ascii not_high_ascii)

lemma length_utf8_ascii: "list_all (\<lambda>c. c < 0x80) s \<Longrightarrow> length (utf8 s) = length s"
  by (simp add: utf8_ascii)

lemma property_size_wf:
  "wf_property p \<Longrightarrow> property_size p = Inr (length (property_bytes fp p))"
proof (cases p)
  case (Property t v)
  assume "wf_property p"
  then show ?thesis unfolding Property
    by (cases t; cases v) (simp_all add: int_bytes_def split: if_splits option.splits)
qed

lemma properties_size_wf:
  "list_all wf_property ps \<Longrightarrow>
   properties_size ps acc = Inr (acc + length (properties_bytes fp ps))"
  by (induction ps arbitrary: acc)
     (simp_all add: properties_bytes_def property_size_wf [where fp = fp])

lemma property_bytes_nonempty: "1 \<le> length (property_bytes fp p)"
  by (cases p) simp

lemma length_properties_le: "length ps \<le> length (properties_bytes fp ps)"
proof (induction ps)
  case Nil
  show ?case by simp
next
  case (Cons p ps)
  then show ?case using property_bytes_nonempty [of fp p] by (simp add: properties_bytes_def)
qed

lemma le_nat_le_bytes: "le_nat (le_bytes k v) = v mod 256 ^ k"
proof (induction k arbitrary: v)
  case 0
  show ?case by simp
next
  case (Suc k)
  have "unat (of_nat (v mod 256) :: byte) = v mod 256" by (simp add: unat_of_nat)
  then have "le_nat (le_bytes (Suc k) v) = v mod 256 + 256 * ((v div 256) mod 256 ^ k)"
    by (simp add: Suc.IH)
  also have "\<dots> = v mod 256 ^ Suc k"
    by (simp add: mod_mult2_eq)
  finally show ?case .
qed

lemma sizing_wf:
  "wf_node n \<Longrightarrow>
     \<exists>s n'. calculateNodeTreeSize n = Inr (s, n') \<and>
       (\<forall>off. length (node_bytes fp off n') = s \<and> (off + s < 2 ^ 32 \<longrightarrow> writable fp off n'))"
  "list_all wf_node cs \<Longrightarrow>
     \<exists>t cs'. calculateNodeTreeSize_Set cs = Inr (t, cs') \<and> length cs' = length cs \<and>
       (\<forall>off. length (nodes_bytes fp off cs') = t \<and> (off + t < 2 ^ 32 \<longrightarrow> writables fp off cs'))"
proof (induction n and cs rule: calculateNodeTreeSize_calculateNodeTreeSize_Set.induct)
  case (1 nm ps cs sz psz)
  from "1.prems" have nm: "length (utf8 nm) = length nm" "length nm < 2 ^ 8"
    and ps: "list_all wf_property ps" and cs: "list_all wf_node cs"
    by (simp_all add: length_utf8_ascii)
  let ?pbs = "properties_bytes fp ps"
  from "1.IH" [OF refl refl cs] obtain t cs' where
    t: "calculateNodeTreeSize_Set cs = Inr (t, cs')" and len: "length cs' = length cs"
    and all: "\<And>off. length (nodes_bytes fp off cs') = t"
             "\<And>off. off + t < 2 ^ 32 \<Longrightarrow> writables fp off cs'"
    by blast
  define s where "s = 13 + length nm + length ?pbs + t + (if length cs > 0 then 13 else 0)"
  define n' where "n' = FBXNodeRecord nm ps cs' (Some s) (Some (length ?pbs))"
  have calc: "calculateNodeTreeSize (FBXNodeRecord nm ps cs sz psz) = Inr (s, n')"
    by (simp add: properties_size_wf [OF ps, where fp = fp] t s_def n'_def Let_def)
  have "length (node_bytes fp off n') = s \<and> (off + s < 2 ^ 32 \<longrightarrow> writable fp off n')" for off
  proof
    show l: "length (node_bytes fp off n') = s"
      using len by (simp add: n'_def s_def Let_def all(1) nm)
    show "off + s < 2 ^ 32 \<longrightarrow> writable fp off n'"
    proof
      assume b: "off + s < 2 ^ 32"
      have "length ps \<le> length ?pbs" by (rule length_properties_le)
      moreover have "off + (13 + length nm + length ?pbs) + t < 2 ^ 32"
        using b by (simp add: s_def split: if_splits)
      moreover from this have "writables fp (off + (13 + length nm + length ?pbs)) cs'"
        by (rule all(2))
      ultimately show "writable fp off n'"
        using b nm ps by (simp add: n'_def s_def add.assoc split: if_splits)
    qed
  qed
  with calc show ?case by blast
next
  case 2
  show ?case by simp
next
  case (3 c cs)
  from "3.prems" have c: "wf_node c" and cs: "list_all wf_node cs" by simp_all
  from "3.IH"(1) [OF c] obtain s c' where
    s: "calculateNodeTreeSize c = Inr (s, c')"
    and c': "\<And>off. length (node_bytes fp off c') = s"
            "\<And>off. off + s < 2 ^ 32 \<Longrightarrow> writable fp off c'"
    by blast
  from "3.IH"(2) [OF cs] obtain t cs' where
    t: "calculateNodeTreeSize_Set cs = Inr (t, cs')" and len: "length cs' = length cs"
    and cs': "\<And>off. length (nodes_bytes fp off cs') = t"
             "\<And>off. off + t < 2 ^ 32 \<Longrightarrow> writables fp off cs'"
    by blast
  have "calculateNodeTreeSize_Set (c # cs) = Inr (s + t, c' # cs')"
    by (simp add: s t)
  moreover have "length (c' # cs') = length (c # cs)" by (simp add: len)
  moreover have "length (nodes_bytes fp off (c' # cs')) = s + t \<and>
                 (off + (s + t) < 2 ^ 32 \<longrightarrow> writables fp off (c' # cs'))" for off
    using c'(1) [of off] c'(2) [of off] cs'(1) [of "off + s"] cs'(2) [of "off + s"]
    by (simp add: Let_def add.assoc)
  ultimately show ?case by blast
qed

lemma writeNode_Inr:
  "writeNode fp n b = Inr b' \<Longrightarrow> writeBuffer (node_bytes fp (offset b) n) b = Inr b'"
  "writeNodes fp cs b = Inr b' \<Longrightarrow> offset b \<le> length (data b) \<Longrightarrow>
     writeBuffer (nodes_bytes fp (offset b) cs) b = Inr b'"
proof (induction fp n b and fp cs b arbitrary: b' and b' rule: writeNode_writeNodes.induct)
  case (1 fp nm ps cs sz psz buf)
  let ?n = "FBXNodeRecord nm ps cs sz psz"
  let ?hdr = "header_bytes (offset buf) ?n"
  let ?pbs = "properties_bytes fp ps"
  let ?off = "offset buf + length (?hdr @ ?pbs)"
  let ?tl = "if length cs > 0 then replicate 13 0 else ([]::byte list)"
  from "1.prems" obtain s where sz: "sz = Some s" by (auto split: option.splits)
  from "1.prems" sz obtain p where psz: "psz = Some p"
    by (auto simp: and_then_Inr_iff split: option.splits)
  from "1.prems" obtain b1 b2 b3 b4 b5 b6 b7 where
    w1: "writeUInt32LE (offset buf + s) buf = Inr b1" and
    w2: "writeUInt32LE (length ps) b1 = Inr b2" and
    w3: "writeUInt32LE p b2 = Inr b3" and
    w4: "writeUInt8 (length (utf8 nm)) b3 = Inr b4" and
    w5: "writeString (JSString nm) b4 = Inr b5" and
    w6: "writeProperties fp ps b5 = Inr b6" and
    w7: "writeNodes fp cs b6 = Inr b7" and
    w8: "(if length cs > 0 then write_zeros 13 b7 else Inr b7) = Inr b'"
    unfolding sz psz by (auto simp: and_then_Inr_iff)
  have h: "writeBuffer ?hdr buf = Inr b5"
    unfolding header_bytes_def
    using writeUInt32LE_Inr [OF w1] writeUInt32LE_Inr [OF w2] writeUInt32LE_Inr [OF w3]
      writeUInt8_Inr [OF w4] w5
    by (simp add: sz psz writeString_JSString writeBuffer_then del: le_bytes.simps)
  have p6: "writeBuffer ?pbs b5 = Inr b6"
    by (rule writeProperties_Inr [OF w6 writeBuffer_bound [OF h]])
  have hp: "writeBuffer (?hdr @ ?pbs) buf = Inr b6"
    by (rule writeBuffer_then [OF h p6])
  have o6: "offset b6 = ?off" by (rule writeBuffer_offset [OF hp])
  have c7: "writeBuffer (nodes_bytes fp ?off cs) b6 = Inr b7"
    using "1.IH" [OF sz psz w7 writeBuffer_bound [OF hp]] o6 by simp
  have t8: "writeBuffer ?tl b7 = Inr b'"
    using w8 writeBuffer_bound [OF c7] by (simp add: write_zeros_13 split: if_splits)
  have "writeBuffer ((?hdr @ ?pbs) @ nodes_bytes fp ?off cs @ ?tl) buf = Inr b'"
    by (intro writeBuffer_then [OF hp] writeBuffer_then [OF c7] t8)
  then show ?case by (simp add: Let_def)
next
  case (2 fp buf)
  then show ?case by simp
next
  case (3 fp c cs buf)
  from "3.prems"(1) obtain b1 where c: "writeNode fp c buf = Inr b1"
    and cs: "writeNodes fp cs b1 = Inr b'"
    by (auto simp: and_then_Inr_iff)
  have w: "writeBuffer (node_bytes fp (offset buf) c) buf = Inr b1"
    by (rule "3.IH"(1) [OF c])
  have "writeBuffer (nodes_bytes fp (offset b1) cs) b1 = Inr b'"
    by (rule "3.IH"(2) [OF cs writeBuffer_bound [OF w]])
  then show ?case
    using w writeBuffer_offset [OF w] by (simp add: Let_def writeBuffer_then)
qed

section \<open>Evaluation lemmas\<close>

lemma utf8_magic:
  "utf8 magic =
     [75, 97, 121, 100, 97, 114, 97, 32, 70, 66, 88, 32, 66, 105, 110, 97, 114, 121, 32, 32, 0]"
  by (simp add: magic_def js_def utf8_unit_def is_high_surrogate_def is_low_surrogate_def)

lemma le_bytes_numeral:
  "le_bytes (numeral k) v = of_nat (v mod 256) # le_bytes (pred_numeral k) (v div 256)"
  by (simp only: numeral_eq_Suc le_bytes.simps)

lemma le_bytes_1: "le_bytes 1 v = [of_nat (v mod 256)]"
  by simp

lemma writeNodes_Nil: "writeNodes fp [] = Inr"
  by (rule ext) simp

lemma writeBuffer_alloc:
  "length bs = n \<Longrightarrow> writeBuffer bs (alloc n) = Inr \<lparr>data = bs, offset = n\<rparr>"
  by (simp add: writeBuffer_def alloc_def)

section \<open>Examples of the value conversions\<close>

lemma floor_rat_numeral: "\<lfloor>numeral a / numeral b :: rat\<rfloor> = numeral a div numeral b"
  using floor_divide_of_int_eq [where ?'a = rat, of "numeral a" "numeral b"] by simp

lemma binade_up_numeral:
  "binade_up (numeral k) x = (if x < 2 then 0 else Suc (binade_up (pred_numeral k) (x / 2)))"
  by (simp add: numeral_eq_Suc)

lemma binade_down_numeral:
  "binade_down (numeral k) x =
     (if 1 \<le> x then 0 else Suc (binade_down (pred_numeral k) (2 * x)))"
  by (simp add: numeral_eq_Suc)

lemmas double_simps = to_double_def ulp_def round_half_even_def binade_up_numeral
  binade_down_numeral floor_rat_numeral

text \<open>
  The doubles nearest to one third and to one tenth. The double nearest to 0.6, times
  255, is below 153 as a real number and is 153 as a double, so that the byte stored by
  \<^verbatim>\<open>buildFileIDNode\<close> is 153.
\<close>

lemma to_double_examples:
  "to_double (1 / 3) = 6004799503160661 / 2 ^ 54"
  "to_double (1 / 10) = 3602879701896397 / 2 ^ 55"
  "to_double (255 / 2) = 255 / 2"
  by (simp_all add: double_simps)

lemma to_double_product_rounds_up:
  "\<lfloor>to_double (5404319552844595 / 2 ^ 53 * 255)\<rfloor> = 153 \<and>
   \<lfloor>5404319552844595 / 2 ^ 53 * 255 :: rat\<rfloor> = 152"
  by (simp add: double_simps)

lemma BigInt_examples:
  "BigInt (JSString (js ''12'')) = Inr 12"
  "BigInt (JSString (js '' -007 '')) = Inr (- 7)"
  "BigInt (JSString (js ''0x1f'')) = Inr 31"
  "BigInt (JSString []) = Inr 0"
  "BigInt (JSString (js ''1.5'')) = Inl SyntaxError"
  "BigInt (JSString (js ''-'')) = Inl SyntaxError"
  "BigInt (JSString (js ''0x'')) = Inl SyntaxError"
  "BigInt (JSString (js ''-0x1'')) = Inl SyntaxError"
  "BigInt (JSBuffer [0x34, 0x32]) = Inr 42"
  "BigInt (JSNumber (3 / 2)) = Inl RangeError"
  by (simp_all add: StringToBigInt_def trim_def js_def is_StrWhiteSpaceChar_def
      parse_number_def digit_value_def Buffer_toString_def utf16_def floor_rat_numeral)

lemma utf8_decode_examples:
  "utf8_decode [0xC3, 0xA9] = [0xE9]"
  "utf8_decode [0xE2, 0x82, 0xAC] = [0x20AC]"
  "utf8_decode [0xF0, 0x9F, 0x98, 0x80] = [0x1F600]"
  "utf8_decode [0xE2, 0x82] = [0xFFFD]"
  "utf8_decode [0xE2, 0x82, 0x41] = [0xFFFD, 0x41]"
  "utf8_decode [0xC0, 0x80] = [0xFFFD, 0xFFFD]"
  "utf8_decode [0xED, 0xA0, 0x80] = [0xFFFD, 0xFFFD, 0xFFFD]"
  "utf8_decode [0xFF] = [0xFFFD]"
  by (simp_all add: in_range_def)

section \<open>The file preamble\<close>

text \<open>
  Claim C5. For an empty sequence of root records, sizing, allocation and writing
  produce a buffer of exactly 27 bytes with the cursor at its end: the 21 bytes of
  \<^verbatim>\<open>Kaydara FBX Binary\<close>, two spaces and a NUL, then \<^verbatim>\<open>0x1A\<close>, \<^verbatim>\<open>0x00\<close>, and 7400 as an
  unsigned 32-bit little-endian integer (\<^verbatim>\<open>E8 1C 00 00\<close>). The method \<^verbatim>\<open>write\<close> itself always
  builds the eleven root records first; the statement is about the part of it that follows
  the construction of the tree, applied to the empty sequence.
\<close>

theorem empty_tree_preamble:
  "serialize fp [] =
     Inr \<lparr>data = [0x4B, 0x61, 0x79, 0x64, 0x61, 0x72, 0x61, 0x20, 0x46, 0x42, 0x58, 0x20,
                 0x42, 0x69, 0x6E, 0x61, 0x72, 0x79, 0x20, 0x20, 0x00,
                 0x1A, 0x00, 0xE8, 0x1C, 0x00, 0x00],
          offset = 27\<rparr>"
proof -
  let ?bs = "utf8 magic @ le_bytes 1 0x1A @ le_bytes 1 0 @ le_bytes 4 7400"
  have "serialize fp [] = writeBuffer ?bs (alloc 27)"
    by (simp add: serialize_def writeString_JSString writeUInt8_eq writeUInt32LE_eq
          FBX_VERSION_def writeBuffer_append2 writeNodes_Nil del: le_bytes.simps)
  also have "\<dots> = Inr \<lparr>data = ?bs, offset = 27\<rparr>"
    by (rule writeBuffer_alloc) (simp add: utf8_magic)
  also have "?bs = [0x4B, 0x61, 0x79, 0x64, 0x61, 0x72, 0x61, 0x20, 0x46, 0x42, 0x58, 0x20,
                 0x42, 0x69, 0x6E, 0x61, 0x72, 0x79, 0x20, 0x20, 0x00,
                 0x1A, 0x00, 0xE8, 0x1C, 0x00, 0x00]"
    by (simp add: utf8_magic le_bytes_numeral)
  finally show ?thesis .
qed

section \<open>A single leaf record\<close>

lemma js_X: "js ''X'' = [0x58]"
  by (simp add: js_def)

lemma int_bytes_4_42: "int_bytes 4 42 = [42, 0, 0, 0]"
  by (simp add: int_bytes_def le_bytes_numeral)

lemma writeBuffer_fits:
  "offset b + length bs \<le> length (data b) \<Longrightarrow> length bs = n \<Longrightarrow>
   writeBuffer bs b =
     Inr \<lparr>data = take (offset b) (data b) @ bs @ drop (offset b + n) (data b),
          offset = offset b + n\<rparr>"
  by (auto simp: writeBuffer_def)

text \<open>
  Claim C4. For the leaf record named \<^verbatim>\<open>X\<close> with the single Int32 property 42, the size
  calculator returns 19 and stores \<open>size = 19\<close> and \<open>propertySize = 5\<close> (the header cost
  is \<open>4 + 4 + 4 + 1 + 1 = 14\<close>). Written at any offset of a buffer with 19 bytes of room
  (and an end offset below \<open>2^32\<close>), the record is exactly: the start offset plus 19 as
  four little-endian bytes, the property count 1, the property-list length 5, the name
  length 1, the byte \<^verbatim>\<open>X\<close>, the type code \<^verbatim>\<open>0x49\<close>, and 42 as four little-endian bytes,
  with no trailer; the rest of the buffer is unchanged and the cursor advances by 19.
\<close>

theorem leaf_X_int32_42:
  assumes "offset b + 19 \<le> length (data b)" and "offset b + 19 < 2 ^ 32"
  shows "calculateNodeTreeSize (new_record_with (js ''X'') PROPERTY_INT_32 [JSNumber 42]) =
           Inr (19, FBXNodeRecord (js ''X'') [Property PROPERTY_INT_32 (JSNumber 42)] []
                      (Some 19) (Some 5))
       \<and> 4 + 4 + 4 + 1 + length (js ''X'') = 14
       \<and> writeNode fp
           (FBXNodeRecord (js ''X'') [Property PROPERTY_INT_32 (JSNumber 42)] []
              (Some 19) (Some 5)) b =
         Inr \<lparr>data = take (offset b) (data b) @
                     (le_bytes 4 (offset b + 19) @
                      [1, 0, 0, 0,  5, 0, 0, 0,  1,  0x58,  0x49,  42, 0, 0, 0]) @
                     drop (offset b + 19) (data b),
              offset = offset b + 19\<rparr>"
proof (intro conjI)
  let ?n = "FBXNodeRecord (js ''X'') [Property PROPERTY_INT_32 (JSNumber 42)] []
              (Some 19) (Some 5)"
  show "calculateNodeTreeSize (new_record_with (js ''X'') PROPERTY_INT_32 [JSNumber 42]) =
          Inr (19, ?n)"
    by (simp add: new_record_with_def add_properties_def new_record_def js_X)
  show "4 + 4 + 4 + 1 + length (js ''X'') = 14"
    by (simp add: js_X)
  have u: "utf8 (js ''X'') = [0x58]"
    by (simp add: js_X utf8_unit_def)
  have "writable fp (offset b) ?n"
    using assms(2) by (simp add: u)
  then have w: "writeNode fp ?n b = writeBuffer (node_bytes fp (offset b) ?n) b"
    by (rule writeNode_writable)
  let ?bs = "le_bytes 4 (offset b + 19) @
      [1, 0, 0, 0,  5, 0, 0, 0,  1,  0x58,  0x49,  42, 0, 0, 0 :: byte]"
  have nb: "node_bytes fp (offset b) ?n = ?bs"
    by (simp add: header_bytes_def properties_bytes_def u int_bytes_4_42 le_bytes_numeral
          del: le_bytes.simps) (simp add: le_bytes_numeral)
  have len: "length ?bs = 19" by simp
  have "writeBuffer ?bs b =
      Inr \<lparr>data = take (offset b) (data b) @ ?bs @ drop (offset b + 19) (data b),
           offset = offset b + 19\<rparr>"
    using assms(1) by (intro writeBuffer_fits) (simp_all only: len)
  then show "writeNode fp ?n b =
         Inr \<lparr>data = take (offset b) (data b) @
                     (le_bytes 4 (offset b + 19) @
                      [1, 0, 0, 0,  5, 0, 0, 0,  1,  0x58,  0x49,  42, 0, 0, 0]) @
                     drop (offset b + 19) (data b),
              offset = offset b + 19\<rparr>"
    by (simp only: w nb)
qed

theorem leaf_X_int32_42_witness:
  "offset \<lparr>data = replicate 46 0, offset = 27\<rparr> + 19 \<le> length (data \<lparr>data = replicate 46 0, offset = 27\<rparr>)
   \<and> calculateNodeTreeSize (new_record_with (js ''X'') PROPERTY_INT_32 [JSNumber 42]) =
           Inr (19, FBXNodeRecord (js ''X'') [Property PROPERTY_INT_32 (JSNumber 42)] []
                      (Some 19) (Some 5))
   \<and> writeNode example_fp
           (FBXNodeRecord (js ''X'') [Property PROPERTY_INT_32 (JSNumber 42)] []
              (Some 19) (Some 5)) \<lparr>data = replicate 46 0, offset = 27\<rparr> =
         Inr \<lparr>data = replicate 27 0 @
                     [46, 0, 0, 0,  1, 0, 0, 0,  5, 0, 0, 0,  1,  0x58,  0x49,  42, 0, 0, 0],
              offset = 46\<rparr>"
  using leaf_X_int32_42 [of "\<lparr>data = replicate 46 0, offset = 27\<rparr>" example_fp]
  by (simp add: le_bytes_numeral)

section \<open>The trailer\<close>

lemma properties_size_mono: "properties_size ps acc = Inr v \<Longrightarrow> acc \<le> v"
proof (induction ps arbitrary: acc)
  case Nil
  then show ?case by simp
next
  case (Cons p ps)
  from Cons.prems obtain k where "properties_size ps (acc + k) = Inr v"
    by (auto simp: and_then_Inr_iff)
  from Cons.IH [OF this] show ?case by simp
qed

lemma sizing_stored:
  "calculateNodeTreeSize n = Inr (s, n') \<Longrightarrow>
     size_fld n' = Some s \<and> name n' = name n \<and> properties n' = properties n \<and>
     length (children n') = length (children n) \<and>
     (\<exists>p. propertySize n' = Some p \<and>
        properties_size (properties n) (4 + 4 + 4 + 1 + length (name n)) =
          Inr (4 + 4 + 4 + 1 + length (name n) + p) \<and>
        s = 4 + 4 + 4 + 1 + length (name n) + p +
            sum_list (map (\<lambda>c. case size_fld c of None \<Rightarrow> 0 | Some k \<Rightarrow> k) (children n')) +
            (if children n = [] then 0 else 13))"
  "calculateNodeTreeSize_Set cs = Inr (t, cs') \<Longrightarrow>
     length cs' = length cs \<and>
     t = sum_list (map (\<lambda>c. case size_fld c of None \<Rightarrow> 0 | Some k \<Rightarrow> k) cs')"
proof (induction n and cs arbitrary: s n' and t cs'
         rule: calculateNodeTreeSize_calculateNodeTreeSize_Set.induct)
  case (1 nm ps cs sz psz)
  from "1.prems" obtain size1 csize cs' where
    p: "properties_size ps (4 + 4 + 4 + 1 + length nm) = Inr size1" and
    c: "calculateNodeTreeSize_Set cs = Inr (csize, cs')" and
    s: "s = size1 + csize + (if length cs > 0 then 13 else 0)" and
    n': "n' = FBXNodeRecord nm ps cs' (Some s) (Some (size1 - (4 + 4 + 4 + 1 + length nm)))"
    by (auto simp: and_then_Inr_iff Let_def split: if_splits)
  from "1.IH" [OF refl refl c] have len: "length cs' = length cs"
    and sum: "csize = sum_list (map (\<lambda>c. case size_fld c of None \<Rightarrow> 0 | Some k \<Rightarrow> k) cs')"
    by simp_all
  from properties_size_mono [OF p] have le: "4 + 4 + 4 + 1 + length nm \<le> size1" .
  show ?case
    using p s le len sum by (simp add: n')
next
  case 2
  then show ?case by simp
next
  case (3 c cs)
  from "3.prems" obtain s c' t' cs'' where
    c: "calculateNodeTreeSize c = Inr (s, c')" and
    cs: "calculateNodeTreeSize_Set cs = Inr (t', cs'')" and
    r: "t = s + t'" "cs' = c' # cs''"
    by (auto simp: and_then_Inr_iff)
  from "3.IH"(1) [OF c] "3.IH"(2) [OF cs] show ?case by (simp add: r)
qed

lemma writeNode_steps:
  assumes "writeNode fp n b = Inr b'"
  shows "\<exists>b1 b2.
      writeBuffer (header_bytes (offset b) n @ properties_bytes fp (properties n)) b = Inr b1 \<and>
      writeNodes fp (children n) b1 = Inr b2 \<and>
      (if children n = [] then Inr b2 else writeBuffer (replicate 13 0) b2) = Inr b'"
proof (cases n)
  case (FBXNodeRecord nm ps cs sz psz)
  let ?hdr = "header_bytes (offset b) n"
  from assms obtain s where sz: "sz = Some s"
    unfolding FBXNodeRecord by (auto split: option.splits)
  from assms sz obtain p where psz: "psz = Some p"
    unfolding FBXNodeRecord by (auto simp: and_then_Inr_iff split: option.splits)
  from assms obtain b1 b2 b3 b4 b5 b6 b7 where
    w1: "writeUInt32LE (offset b + s) b = Inr b1" and
    w2: "writeUInt32LE (length ps) b1 = Inr b2" and
    w3: "writeUInt32LE p b2 = Inr b3" and
    w4: "writeUInt8 (length (utf8 nm)) b3 = Inr b4" and
    w5: "writeString (JSString nm) b4 = Inr b5" and
    w6: "writeProperties fp ps b5 = Inr b6" and
    w7: "writeNodes fp cs b6 = Inr b7" and
    w8: "(if length cs > 0 then write_zeros 13 b7 else Inr b7) = Inr b'"
    unfolding FBXNodeRecord sz psz by (auto simp: and_then_Inr_iff)
  have h: "writeBuffer ?hdr b = Inr b5"
    unfolding header_bytes_def FBXNodeRecord
    using writeUInt32LE_Inr [OF w1] writeUInt32LE_Inr [OF w2] writeUInt32LE_Inr [OF w3]
      writeUInt8_Inr [OF w4] w5
    by (simp add: sz psz writeString_JSString writeBuffer_then del: le_bytes.simps)
  have p6: "writeBuffer (properties_bytes fp ps) b5 = Inr b6"
    by (rule writeProperties_Inr [OF w6 writeBuffer_bound [OF h]])
  have "writeBuffer (?hdr @ properties_bytes fp ps) b = Inr b6"
    by (rule writeBuffer_then [OF h p6])
  moreover have "(if cs = [] then Inr b7 else writeBuffer (replicate 13 0) b7) = Inr b'"
    using w8 by (simp add: write_zeros_13 split: if_splits)
  ultimately show ?thesis using w7 unfolding FBXNodeRecord by auto
qed

text \<open>
  Claim C3. Let a record be sized, and let its sized form be written successfully. Then
  the size is the header cost, plus the stored property-list size, plus the stored sizes
  of the children, plus 13 exactly when the record has a child; and the write consists of
  the header and the properties, then the children, and then nothing more when the
  record has no child and exactly 13 zero bytes when it has one, whatever its properties
  are.
\<close>

theorem trailer_iff_children:
  assumes "calculateNodeTreeSize n = Inr (s, n')" and "writeNode fp n' b = Inr b'"
  shows "(\<exists>p. propertySize n' = Some p \<and>
            s = 4 + 4 + 4 + 1 + length (name n) + p +
                sum_list (map (\<lambda>c. case size_fld c of None \<Rightarrow> 0 | Some k \<Rightarrow> k) (children n')) +
                (if children n = [] then 0 else 13)) \<and>
         (\<exists>b1 b2.
            writeBuffer (header_bytes (offset b) n' @ properties_bytes fp (properties n)) b = Inr b1 \<and>
            writeNodes fp (children n') b1 = Inr b2 \<and>
            (if children n = [] then Inr b2 else writeBuffer (replicate 13 0) b2) = Inr b')"
proof -
  from sizing_stored(1) [OF assms(1)] have
    eq: "properties n' = properties n" "length (children n') = length (children n)"
    and p: "\<exists>p. propertySize n' = Some p \<and>
            s = 4 + 4 + 4 + 1 + length (name n) + p +
                sum_list (map (\<lambda>c. case size_fld c of None \<Rightarrow> 0 | Some k \<Rightarrow> k) (children n')) +
                (if children n = [] then 0 else 13)"
    by auto
  from eq(2) have "children n' = [] \<longleftrightarrow> children n = []" by auto
  with writeNode_steps [OF assms(2)] eq(1) p show ?thesis by simp
qed


lemma replicate_numeral: "replicate (numeral k) x = x # replicate (pred_numeral k) x"
  by (simp only: numeral_eq_Suc replicate.simps)

lemma utf8_js_A: "utf8 (js ''A'') = [0x41]" and utf8_js_B: "utf8 (js ''B'') = [0x42]"
  by (simp_all add: js_def utf8_unit_def)

theorem trailer_iff_children_witness:
  "calculateNodeTreeSize
     (FBXNodeRecord (js ''A'') [] [FBXNodeRecord (js ''B'') [] [] None None] None None) =
     Inr (41, FBXNodeRecord (js ''A'') []
                [FBXNodeRecord (js ''B'') [] [] (Some 14) (Some 0)] (Some 41) (Some 0)) \<and>
   writeNode example_fp
     (FBXNodeRecord (js ''A'') []
        [FBXNodeRecord (js ''B'') [] [] (Some 14) (Some 0)] (Some 41) (Some 0)) (alloc 41) =
     Inr \<lparr>data = [41, 0, 0, 0, 0, 0, 0, 0, 0, 0, 0, 0, 1, 0x41,
                 28, 0, 0, 0, 0, 0, 0, 0, 0, 0, 0, 0, 1, 0x42,
                 0, 0, 0, 0, 0, 0, 0, 0, 0, 0, 0, 0, 0],
          offset = 41\<rparr> \<and>
   (\<exists>b1 b2.
      writeBuffer
        (header_bytes (offset (alloc 41))
           (FBXNodeRecord (js ''A'') []
              [FBXNodeRecord (js ''B'') [] [] (Some 14) (Some 0)] (Some 41) (Some 0)) @
         properties_bytes example_fp
           (properties (FBXNodeRecord (js ''A'') []
              [FBXNodeRecord (js ''B'') [] [] None None] None None))) (alloc 41) = Inr b1 \<and>
      writeNodes example_fp
        (children (FBXNodeRecord (js ''A'') []
           [FBXNodeRecord (js ''B'') [] [] (Some 14) (Some 0)] (Some 41) (Some 0))) b1 = Inr b2 \<and>
      (if children (FBXNodeRecord (js ''A'') []
            [FBXNodeRecord (js ''B'') [] [] None None] None None) = []
       then Inr b2 else writeBuffer (replicate 13 0) b2) =
      Inr \<lparr>data = [41, 0, 0, 0, 0, 0, 0, 0, 0, 0, 0, 0, 1, 0x41,
                 28, 0, 0, 0, 0, 0, 0, 0, 0, 0, 0, 0, 1, 0x42,
                 0, 0, 0, 0, 0, 0, 0, 0, 0, 0, 0, 0, 0],
          offset = 41\<rparr>)"
proof -
  let ?n = "FBXNodeRecord (js ''A'') [] [FBXNodeRecord (js ''B'') [] [] None None] None None"
  let ?n' = "FBXNodeRecord (js ''A'') []
                [FBXNodeRecord (js ''B'') [] [] (Some 14) (Some 0)] (Some 41) (Some 0)"
  let ?bs = "[41, 0, 0, 0, 0, 0, 0, 0, 0, 0, 0, 0, 1, 0x41,
                 28, 0, 0, 0, 0, 0, 0, 0, 0, 0, 0, 0, 1, 0x42,
                 0, 0, 0, 0, 0, 0, 0, 0, 0, 0, 0, 0, 0] :: byte list"
  have js1: "length (js ''A'') = 1" "length (js ''B'') = 1" by (simp_all add: js_def)
  have h1: "calculateNodeTreeSize ?n = Inr (41, ?n')"
    by (simp add: js1)
  have "writable example_fp (offset (alloc 41)) ?n'"
    by (simp add: alloc_def utf8_js_A utf8_js_B properties_bytes_def)
  then have "writeNode example_fp ?n' (alloc 41) =
             writeBuffer (node_bytes example_fp (offset (alloc 41)) ?n') (alloc 41)"
    by (rule writeNode_writable)
  moreover have "node_bytes example_fp (offset (alloc 41)) ?n' = ?bs"
    by (simp add: alloc_def header_bytes_def properties_bytes_def utf8_js_A utf8_js_B
          le_bytes_numeral replicate_numeral)
  moreover have "writeBuffer ?bs (alloc 41) = Inr \<lparr>data = ?bs, offset = 41\<rparr>"
    by (rule writeBuffer_alloc) simp
  ultimately have h2: "writeNode example_fp ?n' (alloc 41) = Inr \<lparr>data = ?bs, offset = 41\<rparr>"
    by (simp only:)
  from trailer_iff_children [OF h1 h2] h1 h2 show ?thesis by blast
qed

section \<open>Array-typed properties\<close>

lemma properties_size_array:
  "list_ex (\<lambda>p. type_isArray (ptype p)) ps \<Longrightarrow> \<exists>e. properties_size ps acc = Inl e"
proof (induction ps arbitrary: acc)
  case Nil
  then show ?case by simp
next
  case (Cons p ps)
  show ?case
  proof (cases "property_size p")
    case (Inl e)
    then show ?thesis by simp
  next
    case (Inr k)
    have "\<not> type_isArray (ptype p)"
    proof
      assume "type_isArray (ptype p)"
      then have "property_size p = Inl TypeError"
        by (cases p; cases "ptype p") (simp_all add: type_value_def)
      with Inr show False by simp
    qed
    with Cons.prems have "list_ex (\<lambda>p. type_isArray (ptype p)) ps" by simp
    from Cons.IH [OF this] Inr show ?thesis by simp
  qed
qed

lemma sizing_array:
  "has_array_property n \<Longrightarrow> \<exists>e. calculateNodeTreeSize n = Inl e"
  "list_ex has_array_property cs \<Longrightarrow> \<exists>e. calculateNodeTreeSize_Set cs = Inl e"
proof (induction n and cs rule: calculateNodeTreeSize_calculateNodeTreeSize_Set.induct)
  case (1 nm ps cs sz psz)
  show ?case
  proof (cases "list_ex (\<lambda>p. type_isArray (ptype p)) ps")
    case True
    from properties_size_array [OF this, of "4 + 4 + 4 + 1 + length nm"]
    show ?thesis by (auto simp: Let_def)
  next
    case False
    with "1.prems" have "list_ex has_array_property cs" by simp
    from "1.IH" [OF refl refl this] obtain e where "calculateNodeTreeSize_Set cs = Inl e" ..
    then show ?thesis
      by (cases "properties_size ps (4 + 4 + 4 + 1 + length nm)") (simp_all add: Let_def)
  qed
next
  case 2
  then show ?case by simp
next
  case (3 c cs)
  show ?case
  proof (cases "calculateNodeTreeSize c")
    case (Inl e)
    then show ?thesis by simp
  next
    case (Inr r)
    then have "\<not> has_array_property c" using "3.IH"(1) by auto
    with "3.prems" have "list_ex has_array_property cs" by simp
    from "3.IH"(2) [OF this] obtain e where "calculateNodeTreeSize_Set cs = Inl e" ..
    with Inr show ?thesis by (cases r) simp
  qed
qed

text \<open>
  Claim C7. For a property of an array type, the size calculator takes the branch that
  multiplies the descriptor's width by the length of the descriptor's own \<^verbatim>\<open>value\<close> field;
  no descriptor has that field, so the computation fails with a TypeError, whatever the
  property's value is, and the writer emits the type code alone. Sizing any tree that
  holds such a property returns no size.
\<close>

theorem array_properties_unsupported:
  assumes "type_isArray t" and "has_array_property n"
  shows "property_size (Property t v) =
           (case type_value t of
              None \<Rightarrow> Inl TypeError
            | Some a \<Rightarrow> Inr (1 + the (type_size t) * length a)) \<and>
         type_value t = None \<and>
         property_size (Property t v) = Inl TypeError \<and>
         writeProperty fp (Property t v) b = writeBuffer [of_nat (type_code t)] b \<and>
         (\<exists>e. calculateNodeTreeSize n = Inl e)"
proof -
  have "writeUInt8 (type_code t) b = writeBuffer [of_nat (type_code t)] b"
    using type_code_lt [of t] by (simp add: writeUInt8_def)
  moreover have "writeBuffer [of_nat (type_code t)] b = Inl OutOfBounds
      \<or> (\<exists>b'. writeBuffer [of_nat (type_code t)] b = Inr b')"
    by (simp add: writeBuffer_def)
  ultimately have "writeProperty fp (Property t v) b = writeBuffer [of_nat (type_code t)] b"
    using assms(1) by (cases t) auto
  with assms(1) sizing_array(1) [OF assms(2)] show ?thesis
    by (cases t) (simp_all add: type_value_def)
qed

theorem array_properties_unsupported_witness:
  "type_isArray PROPERTY_ARR_INT_32 \<and>
   has_array_property
     (FBXNodeRecord (js ''V'') [Property PROPERTY_ARR_INT_32 (JSNumber 7)] [] None None) \<and>
   property_size (Property PROPERTY_ARR_INT_32 (JSNumber 7)) = Inl TypeError \<and>
   writeProperty example_fp (Property PROPERTY_ARR_INT_32 (JSNumber 7)) (alloc 5) =
     Inr \<lparr>data = [0x69, 0, 0, 0, 0], offset = 1\<rparr> \<and>
   (\<exists>e. calculateNodeTreeSize
      (FBXNodeRecord (js ''V'') [Property PROPERTY_ARR_INT_32 (JSNumber 7)] [] None None) =
      Inl e)"
proof -
  have h1: "type_isArray PROPERTY_ARR_INT_32" by simp
  have h2: "has_array_property
     (FBXNodeRecord (js ''V'') [Property PROPERTY_ARR_INT_32 (JSNumber 7)] [] None None)"
    by simp
  have "writeBuffer [of_nat (type_code PROPERTY_ARR_INT_32)] (alloc 5) =
        Inr \<lparr>data = [0x69, 0, 0, 0, 0], offset = 1\<rparr>"
    by (simp add: writeBuffer_def alloc_def replicate_numeral)
  with array_properties_unsupported [OF h1 h2, of "JSNumber 7" example_fp "alloc 5"] h1 h2
  show ?thesis by simp
qed

section \<open>The root records\<close>

lemma name_add_children [simp]: "name (add_children cs n) = name n"
  by (simp add: add_children_def)

lemma name_add_properties [simp]: "name (add_properties t vs n) = name n"
  by (simp add: add_properties_def)

lemma name_new_record [simp]: "name (new_record nm) = nm"
  by (simp add: new_record_def)

lemma name_new_record_with [simp]: "name (new_record_with nm t vs) = nm"
  by (simp add: new_record_with_def)

text \<open>
  Claim C8. The tree that \<^verbatim>\<open>buildNodeTree\<close> returns has exactly eleven root records, whose
  names are, in order, FBXHeaderExtension, FileId, CreationTime, Creator, GlobalSettings,
  Documents, References, Definitions, Objects, Connections and Takes.
\<close>

theorem root_records_in_order:
  "map name (fst (buildNodeTree sys this w)) =
     [js ''FBXHeaderExtension'', js ''FileId'', js ''CreationTime'', js ''Creator'',
      js ''GlobalSettings'', js ''Documents'', js ''References'', js ''Definitions'',
      js ''Objects'', js ''Connections'', js ''Takes''] \<and>
   length (fst (buildNodeTree sys this w)) = 11"
  by (simp add: buildNodeTree_def buildExtendedHeaderNode_def buildFileIDNode_def
        buildCreationTimeNode_def buildCreatorNode_def buildGlobalSettingsNode_def
        buildDocumentsNode_def buildDefinitionsNode_def buildObjectsNode_def
        buildConnectionsNode_def buildTakesNode_def Let_def split_def)

section \<open>Skipping an existing file\<close>

text \<open>
  Claim C6. With \<^verbatim>\<open>overwrite\<close> false and an existing destination, \<^verbatim>\<open>write\<close> returns
  without an error and leaves the world as it was: no directory is created, the clock and
  the random number generator are not consulted (no tree is built), and no file is
  written.
\<close>

theorem write_skips_existing:
  assumes "fileExists sys (out this) w"
  shows "write_fbx sys fp this False w = Inr w"
  using assms by (simp add: write_fbx_def)

theorem write_skips_existing_witness:
  "fileExists (example_sys 9) (out example_writer) [js ''d/a.fbx''] \<and>
   write_fbx (example_sys 9) example_fp example_writer False [js ''d/a.fbx''] =
     Inr [js ''d/a.fbx'']"
proof -
  have h: "fileExists (example_sys 9) (out example_writer) [js ''d/a.fbx'']"
    by (simp add: example_sys_def example_writer_def)
  from write_skips_existing [OF h] h show ?thesis by simp
qed

section \<open>Names outside ASCII\<close>

lemma length_preamble: "length preamble = 27"
  by (simp add: preamble_def)

lemma preamble_bytes:
  "utf8 magic @ le_bytes 1 0x1A @ le_bytes 1 0 @ le_bytes 4 7400 = preamble"
  by (simp add: utf8_magic le_bytes_numeral preamble_def)

lemma serialize_eq:
  "serialize fp tree =
     and_then (calculateNodeTreeSize_Set tree) (\<lambda>(treeSize, tree).
       writeNodes fp tree \<lparr>data = preamble @ replicate treeSize 0, offset = 27\<rparr>)"
proof -
  have "and_then (writeString (JSString magic) (alloc (t + 27))) (\<lambda>buf.
          and_then (writeUInt8 0x1A buf) (\<lambda>buf.
          and_then (writeUInt8 0x00 buf) (\<lambda>buf.
          and_then (writeUInt32LE FBX_VERSION buf) (\<lambda>buf. writeNodes fp tr buf)))) =
        writeNodes fp tr \<lparr>data = preamble @ replicate t 0, offset = 27\<rparr>" for t tr
  proof -
    let ?bs = "utf8 magic @ le_bytes 1 0x1A @ le_bytes 1 0 @ le_bytes 4 7400"
    have "and_then (writeString (JSString magic) (alloc (t + 27))) (\<lambda>buf.
          and_then (writeUInt8 0x1A buf) (\<lambda>buf.
          and_then (writeUInt8 0x00 buf) (\<lambda>buf.
          and_then (writeUInt32LE FBX_VERSION buf) (\<lambda>buf. writeNodes fp tr buf)))) =
          and_then (writeBuffer ?bs (alloc (t + 27))) (writeNodes fp tr)"
      by (simp add: writeString_JSString writeUInt8_eq writeUInt32LE_eq
          FBX_VERSION_def writeBuffer_append2 del: le_bytes.simps)
    moreover have "writeBuffer preamble (alloc (t + 27)) =
        Inr \<lparr>data = preamble @ replicate t 0, offset = 27\<rparr>"
      by (simp add: writeBuffer_def alloc_def length_preamble)
    ultimately show ?thesis by (simp only: preamble_bytes and_then_simps)
  qed
  then show ?thesis by (simp add: serialize_def split_def)
qed

lemma utf8_e_acute: "utf8_unit 0xE9 = [0xC3, 0xA9]"
  by (simp add: utf8_unit_def is_high_surrogate_def is_low_surrogate_def)

text \<open>
  Claim C2. At the record named by the single character U+00E9, whose UTF-8 encoding has
  two bytes: the size calculator counts a header of \<open>4 + 4 + 4 + 1 + 1 = 14\<close> bytes (the
  name by its one code unit), while the writer emits 15 header bytes, with the name
  length 2 and the two bytes of the name.
\<close>

theorem header_cost_counts_code_units:
  "calculateNodeTreeSize (new_record [0xE9]) =
     Inr (14, FBXNodeRecord [0xE9] [] [] (Some 14) (Some 0)) \<and>
   4 + 4 + 4 + 1 + length (utf8 [0xE9]) = 15 \<and>
   writeNode fp (FBXNodeRecord [0xE9] [] [] (Some 14) (Some 0)) (alloc 15) =
     Inr \<lparr>data = [14, 0, 0, 0,  0, 0, 0, 0,  0, 0, 0, 0,  2,  0xC3, 0xA9], offset = 15\<rparr>"
proof (intro conjI)
  let ?n = "FBXNodeRecord [0xE9] [] [] (Some 14) (Some 0)"
  let ?bs = "[14, 0, 0, 0,  0, 0, 0, 0,  0, 0, 0, 0,  2,  0xC3, 0xA9] :: byte list"
  show "calculateNodeTreeSize (new_record [0xE9]) = Inr (14, ?n)"
    by (simp add: new_record_def)
  show "4 + 4 + 4 + 1 + length (utf8 [0xE9]) = 15"
    by (simp add: utf8_e_acute)
  have "writable fp (offset (alloc 15)) ?n"
    by (simp add: alloc_def utf8_e_acute)
  then have "writeNode fp ?n (alloc 15) = writeBuffer (node_bytes fp (offset (alloc 15)) ?n) (alloc 15)"
    by (rule writeNode_writable)
  moreover have "node_bytes fp (offset (alloc 15)) ?n = ?bs"
    by (simp add: alloc_def header_bytes_def properties_bytes_def utf8_e_acute le_bytes_numeral)
  moreover have "writeBuffer ?bs (alloc 15) = Inr \<lparr>data = ?bs, offset = 15\<rparr>"
    by (rule writeBuffer_alloc) simp
  ultimately show "writeNode fp ?n (alloc 15) = Inr \<lparr>data = ?bs, offset = 15\<rparr>"
    by (simp only:)
qed

text \<open>
  Claim C1. At the tree of a root record \<^verbatim>\<open>A\<close> with one child named by the character
  U+00E9: the size calculator stores 14 for the child and 41 for the root, but the writer
  emits 15 and 42 bytes, so that the end offsets written (28 for the child, 41 for the
  root) lie one byte before the positions where the records end (29 and 42); and the
  buffer that \<^verbatim>\<open>write\<close> allocates from the computed size is one byte too small, so that
  writing this tree fails.
\<close>

theorem size_differs_from_bytes_written:
  "calculateNodeTreeSize_Set [FBXNodeRecord (js ''A'') [] [new_record [0xE9]] None None] =
     Inr (41, [FBXNodeRecord (js ''A'') []
                 [FBXNodeRecord [0xE9] [] [] (Some 14) (Some 0)] (Some 41) (Some 0)]) \<and>
   writeNode fp
     (FBXNodeRecord (js ''A'') []
        [FBXNodeRecord [0xE9] [] [] (Some 14) (Some 0)] (Some 41) (Some 0)) (alloc 42) =
     Inr \<lparr>data = [41, 0, 0, 0,  0, 0, 0, 0,  0, 0, 0, 0,  1,  0x41,
                 28, 0, 0, 0,  0, 0, 0, 0,  0, 0, 0, 0,  2,  0xC3, 0xA9,
                 0, 0, 0, 0, 0, 0, 0, 0, 0, 0, 0, 0, 0],
          offset = 42\<rparr> \<and>
   serialize fp [FBXNodeRecord (js ''A'') [] [new_record [0xE9]] None None] = Inl OutOfBounds"
proof (intro conjI)
  let ?n = "FBXNodeRecord (js ''A'') [] [new_record [0xE9]] None None"
  let ?n' = "FBXNodeRecord (js ''A'') []
                 [FBXNodeRecord [0xE9] [] [] (Some 14) (Some 0)] (Some 41) (Some 0)"
  let ?bs = "[41, 0, 0, 0,  0, 0, 0, 0,  0, 0, 0, 0,  1,  0x41,
                 28, 0, 0, 0,  0, 0, 0, 0,  0, 0, 0, 0,  2,  0xC3, 0xA9,
                 0, 0, 0, 0, 0, 0, 0, 0, 0, 0, 0, 0, 0] :: byte list"
  show calc: "calculateNodeTreeSize_Set [?n] = Inr (41, [?n'])"
    by (simp add: new_record_def js_def)
  have w: "writable fp off ?n'" if "off + 41 < 2 ^ 32" for off
    using that by (simp add: utf8_js_A utf8_e_acute properties_bytes_def)
  have "writeNode fp ?n' (alloc 42) = writeBuffer (node_bytes fp (offset (alloc 42)) ?n') (alloc 42)"
    by (rule writeNode_writable, rule w) (simp add: alloc_def)
  moreover have "node_bytes fp (offset (alloc 42)) ?n' = ?bs"
    by (simp add: alloc_def header_bytes_def properties_bytes_def utf8_js_A utf8_e_acute
          le_bytes_numeral replicate_numeral)
  moreover have "writeBuffer ?bs (alloc 42) = Inr \<lparr>data = ?bs, offset = 42\<rparr>"
    by (rule writeBuffer_alloc) simp
  ultimately show "writeNode fp ?n' (alloc 42) = Inr \<lparr>data = ?bs, offset = 42\<rparr>"
    by (simp only:)
  let ?b = "\<lparr>data = preamble @ replicate 41 0, offset = 27\<rparr>"
  have "writeNode fp ?n' ?b = writeBuffer (node_bytes fp (offset ?b) ?n') ?b"
    by (rule writeNode_writable, rule w) simp
  moreover have "length (node_bytes fp (offset ?b) ?n') = 42"
    by (simp add: properties_bytes_def utf8_js_A utf8_e_acute)
  ultimately have out: "writeNode fp ?n' ?b = Inl OutOfBounds"
    by (simp add: writeBuffer_def length_preamble)
  have "serialize fp [?n] = writeNodes fp [?n'] ?b"
    by (simp only: serialize_eq calc and_then_simps case_prod_conv)
  also have "\<dots> = and_then (writeNode fp ?n' ?b) (writeNodes fp [])"
    by (simp only: writeNodes.simps)
  also have "\<dots> = Inl OutOfBounds"
    by (simp only: out and_then_simps)
  finally show "serialize fp [?n] = Inl OutOfBounds" .
qed

section \<open>Sets of objects\<close>

lemma Set_add_idem: "Set_add x (Set_add x xs) = Set_add x xs"
  by (simp add: Set_add_def)

lemma addChild_one:
  "records st p = Some obj \<Longrightarrow>
   addChild p [c] st =
     (Some c,
      st\<lparr>records := (records st)(p \<mapsto> obj\<lparr>obj_children := Set_add c (obj_children obj)\<rparr>)\<rparr>)"
  by (simp add: addChild_def update_record_def)

lemma addChild_two:
  "records st p = Some obj \<Longrightarrow>
   addChild p [c1, c2] st =
     (Some c1,
      st\<lparr>records := (records st)(p \<mapsto>
             obj\<lparr>obj_children := Set_add c2 (Set_add c1 (obj_children obj))\<rparr>)\<rparr>)"
  by (simp add: addChild_def update_record_def)

lemma addProperty_one:
  "records st p = Some obj \<Longrightarrow>
   addProperty p t [v] st =
     st\<lparr>props := (props st)(fresh st \<mapsto> Property t v),
        fresh := Suc (fresh st),
        records := (records st)(p \<mapsto>
          obj\<lparr>obj_properties := Set_add (fresh st) (obj_properties obj)\<rparr>)\<rparr>"
  by (simp add: update_record_def new_property_def Let_def)

lemma addChild_again:
  assumes "records st p = Some obj"
  shows "snd (addChild p [c] (snd (addChild p [c] st))) = snd (addChild p [c] st)"
proof -
  let ?obj = "obj\<lparr>obj_children := Set_add c (obj_children obj)\<rparr>"
  let ?st = "st\<lparr>records := (records st)(p \<mapsto> ?obj)\<rparr>"
  have 1: "addChild p [c] st = (Some c, ?st)" by (rule addChild_one [OF assms])
  have "records ?st p = Some ?obj" by simp
  from addChild_one [OF this, of c] have "snd (addChild p [c] ?st) = ?st"
    by (simp add: Set_add_idem)
  with 1 show ?thesis by simp
qed

lemma Set_add_fresh: "x \<notin> set xs \<Longrightarrow> Set_add x xs = xs @ [x]"
  by (simp add: Set_add_def)

lemma Set_add_held: "x \<in> set xs \<Longrightarrow> Set_add x xs = xs"
  by (simp add: Set_add_def)

lemma Set_add_count: "distinct xs \<Longrightarrow> count_list (Set_add x xs) x = 1"
proof (cases "x \<in> set xs")
  case True
  assume "distinct xs"
  then have "count_list xs x = 1" using True
    by (induction xs) (auto simp: count_list_0_iff)
  with True show ?thesis by (simp add: Set_add_def)
next
  case False
  then have "count_list xs x = 0" by (simp add: count_list_0_iff)
  with False show ?thesis by (simp add: Set_add_def)
qed

lemma store_same:
  assumes "records st p = Some obj"
  shows "st\<lparr>records := (records st)(p \<mapsto> obj)\<rparr> = st"
proof -
  have "(records st)(p \<mapsto> obj) = records st" using assms by (rule map_upd_triv)
  then show ?thesis by simp
qed

lemma add_each_child_spec:
  "records st p = Some obj \<Longrightarrow> distinct (obj_children obj) \<Longrightarrow>
   \<exists>ys. add_each_child p cs st =
          st\<lparr>records := (records st)(p \<mapsto> obj\<lparr>obj_children := obj_children obj @ ys\<rparr>)\<rparr> \<and>
        distinct (obj_children obj @ ys) \<and> set ys = set cs - set (obj_children obj)"
proof (induction cs arbitrary: st obj)
  case Nil
  have o: "obj\<lparr>obj_children := obj_children obj @ []\<rparr> = obj" by simp
  have "add_each_child p [] st =
          st\<lparr>records := (records st)(p \<mapsto> obj\<lparr>obj_children := obj_children obj @ []\<rparr>)\<rparr>"
    unfolding o store_same [OF Nil(1)] by simp
  moreover have "distinct (obj_children obj @ [])" using Nil(2) by simp
  moreover have "set [] = set [] - set (obj_children obj)" by simp
  ultimately show ?case by blast
next
  case (Cons c cs)
  let ?zs = "if c \<in> set (obj_children obj) then [] else [c]"
  let ?obj = "obj\<lparr>obj_children := obj_children obj @ ?zs\<rparr>"
  let ?st = "st\<lparr>records := (records st)(p \<mapsto> ?obj)\<rparr>"
  have step: "update_record p (\<lambda>ob. ob\<lparr>obj_children := Set_add c (obj_children ob)\<rparr>) st = ?st"
    using Cons.prems(1) by (simp add: update_record_def Set_add_def)
  have r: "records ?st p = Some ?obj" by simp
  have d: "distinct (obj_children ?obj)" using Cons.prems(2) by simp
  from Cons.IH [OF r d] obtain ys where
    eq: "add_each_child p cs ?st =
           ?st\<lparr>records := (records ?st)(p \<mapsto> ?obj\<lparr>obj_children := obj_children ?obj @ ys\<rparr>)\<rparr>"
    and dist: "distinct (obj_children ?obj @ ys)"
    and set: "set ys = set cs - set (obj_children ?obj)"
    by blast
  have "add_each_child p (c # cs) st =
          st\<lparr>records := (records st)(p \<mapsto>
             obj\<lparr>obj_children := obj_children obj @ (?zs @ ys)\<rparr>)\<rparr>"
    by (simp only: add_each_child.simps step eq) simp
  moreover have "distinct (obj_children obj @ (?zs @ ys))" using dist by simp
  moreover have "set (?zs @ ys) = set (c # cs) - set (obj_children obj)"
    using set by auto
  ultimately show ?case by blast
qed

lemma addChild_held:
  assumes "records st p = Some obj" and "d \<in> set (obj_children obj)"
  shows "snd (addChild p [d] st) = st"
  using assms store_same [OF assms(1)] by (simp add: addChild_one Set_add_held)

lemma addProperty_spec:
  "records st p = Some obj \<Longrightarrow> list_all (\<lambda>q. q < fresh st) (obj_properties obj) \<Longrightarrow>
   records (addProperty p t vs st) =
     (records st)(p \<mapsto>
        obj\<lparr>obj_properties := obj_properties obj @ [fresh st ..< fresh st + length vs]\<rparr>) \<and>
   fresh (addProperty p t vs st) = fresh st + length vs \<and>
   props (addProperty p t vs st) =
     (\<lambda>q. if fresh st \<le> q \<and> q < fresh st + length vs
          then Some (Property t (vs ! (q - fresh st))) else props st q)"
proof (induction vs arbitrary: st obj)
  case Nil
  have "(\<lambda>q. if fresh st \<le> q \<and> q < fresh st + length ([]::jsvalue list)
                 then Some (Property t ([] ! (q - fresh st))) else props st q) = props st"
    by (rule ext) auto
  moreover have "(records st)(p \<mapsto> obj) = records st" using Nil(1) by (rule map_upd_triv)
  ultimately show ?case by simp
next
  case (Cons v vs)
  let ?f = "fresh st"
  let ?obj = "obj\<lparr>obj_properties := obj_properties obj @ [?f]\<rparr>"
  let ?st = "st\<lparr>props := (props st)(?f \<mapsto> Property t v), fresh := Suc ?f,
                 records := (records st)(p \<mapsto> ?obj)\<rparr>"
  from Cons.prems(2) have nf: "?f \<notin> set (obj_properties obj)"
    by (auto simp: list_all_iff)
  have step: "addProperty p t (v # vs) st = addProperty p t vs ?st"
  proof -
    have "addProperty p t (v # vs) st = addProperty p t vs (addProperty p t [v] st)"
      by (simp add: Let_def split_def)
    moreover have "addProperty p t [v] st = ?st"
      by (simp only: addProperty_one [OF Cons.prems(1)] Set_add_fresh [OF nf])
    ultimately show ?thesis by (simp only:)
  qed
  have r: "records ?st p = Some ?obj" by simp
  have o: "list_all (\<lambda>q. q < fresh ?st) (obj_properties ?obj)"
    using Cons.prems(2) by (auto simp: list_all_iff)
  have pr: "(\<lambda>q. if Suc ?f \<le> q \<and> q < Suc ?f + length vs
                then Some (Property t (vs ! (q - Suc ?f)))
                else ((props st)(?f \<mapsto> Property t v)) q) =
            (\<lambda>q. if ?f \<le> q \<and> q < ?f + length (v # vs)
                then Some (Property t ((v # vs) ! (q - ?f))) else props st q)"
  proof
    fix q
    show "(if Suc ?f \<le> q \<and> q < Suc ?f + length vs
                then Some (Property t (vs ! (q - Suc ?f)))
                else ((props st)(?f \<mapsto> Property t v)) q) =
          (if ?f \<le> q \<and> q < ?f + length (v # vs)
                then Some (Property t ((v # vs) ! (q - ?f))) else props st q)"
    proof (cases "q = ?f")
      case True
      then show ?thesis by simp
    next
      case False
      then have "Suc ?f \<le> q \<longleftrightarrow> ?f \<le> q" by auto
      moreover have "Suc ?f \<le> q \<Longrightarrow> (v # vs) ! (q - ?f) = vs ! (q - Suc ?f)"
        by (simp add: Suc_diff_le)
      ultimately show ?thesis using False by auto
    qed
  qed
  have up: "[?f ..< ?f + length (v # vs)] = ?f # [Suc ?f ..< Suc ?f + length vs]"
    by (simp add: upt_conv_Cons del: upt_Suc)
  note ih = Cons.IH [OF r o]
  have 1: "records (addProperty p t vs ?st) =
          (records st)(p \<mapsto>
             obj\<lparr>obj_properties := obj_properties obj @ ?f # [Suc ?f ..< Suc ?f + length vs]\<rparr>)"
    by (rule ext) (simp add: ih [THEN conjunct1] del: upt_Suc)
  have 2: "fresh (addProperty p t vs ?st) = Suc ?f + length vs"
    by (simp add: ih [THEN conjunct2, THEN conjunct1])
  have 3: "props (addProperty p t vs ?st) =
          (\<lambda>q. if Suc ?f \<le> q \<and> q < Suc ?f + length vs
                then Some (Property t (vs ! (q - Suc ?f)))
                else ((props st)(?f \<mapsto> Property t v)) q)"
    by (rule ext) (simp add: ih [THEN conjunct2, THEN conjunct2] cong: if_cong)
  show ?case
    unfolding step 1 2 3 pr up by simp
qed

text \<open>
  The constructor returns a record without children whose property objects are the ones
  it has just allocated: a new record satisfies the assumptions of the theorem below.
\<close>

lemma new_FBXNodeRecord_spec:
  "records (snd (new_FBXNodeRecord nm single st)) (fst (new_FBXNodeRecord nm single st)) =
     Some \<lparr>obj_name = nm,
           obj_properties =
             (case single of None \<Rightarrow> []
              | Some (t, vs) \<Rightarrow> [Suc (fresh st) ..< Suc (fresh st) + length vs]),
           obj_children = [], obj_size = None, obj_propertySize = None\<rparr> \<and>
   fresh (snd (new_FBXNodeRecord nm single st)) =
     Suc (fresh st) + (case single of None \<Rightarrow> 0 | Some (t, vs) \<Rightarrow> length vs)"
proof (cases single)
  case None
  then show ?thesis by (simp add: new_FBXNodeRecord_def Let_def)
next
  case (Some tv)
  obtain t vs where tv: "tv = (t, vs)" by (cases tv)
  let ?obj = "\<lparr>obj_name = nm, obj_properties = [], obj_children = [],
               obj_size = None, obj_propertySize = None\<rparr>"
  let ?st = "st\<lparr>records := (records st)(fresh st \<mapsto> ?obj), fresh := Suc (fresh st)\<rparr>"
  have r: "records ?st (fresh st) = Some ?obj" by simp
  have o: "list_all (\<lambda>q. q < fresh ?st) (obj_properties ?obj)" by simp
  note sp = addProperty_spec [OF r o, of t vs]
  have eq: "new_FBXNodeRecord nm single st = (fresh st, addProperty (fresh st) t vs ?st)"
    by (simp add: new_FBXNodeRecord_def Let_def Some tv)
  show ?thesis
    unfolding eq by (simp add: sp [THEN conjunct1] sp [THEN conjunct2, THEN conjunct1] Some tv
        del: addProperty.simps upt_Suc)
qed

lemma those_map_Some: "those (map Some xs @ ys) = map_option ((@) xs) (those ys)"
  by (induction xs) (auto simp: option.map_ident option.map_comp comp_def split: option.splits)

lemma properties_size_append:
  "properties_size (ps @ qs) acc = and_then (properties_size ps acc) (properties_size qs)"
  by (induction ps arbitrary: acc) (simp_all add: and_then_assoc)

lemma properties_size_shift:
  "properties_size ps 0 = Inr k \<Longrightarrow> properties_size ps acc = Inr (acc + k)"
proof -
  have "properties_size ps a = Inr k \<Longrightarrow> properties_size ps (a + b) = Inr (k + b)" for a b k
  proof (induction ps arbitrary: a k)
    case Nil
    then show ?case by simp
  next
    case (Cons q ps)
    from Cons.prems obtain m where m: "property_size q = Inr m"
      and r: "properties_size ps (a + m) = Inr k"
      by (auto simp: and_then_Inr_iff)
    from Cons.IH [OF r] have "properties_size ps (a + b + m) = Inr (k + b)"
      by (simp add: ac_simps)
    with m show ?case by simp
  qed
  from this [of 0 k acc] show "properties_size ps 0 = Inr k \<Longrightarrow> ?thesis"
    by (simp add: ac_simps)
qed

lemma calculateNodeTreeSize_Set_snoc:
  "calculateNodeTreeSize_Set cs = Inr (s0, cs') \<Longrightarrow> calculateNodeTreeSize c = Inr (sc, c') \<Longrightarrow>
   calculateNodeTreeSize_Set (cs @ [c]) = Inr (s0 + sc, cs' @ [c'])"
proof (induction cs arbitrary: s0 cs')
  case Nil
  then show ?case by simp
next
  case (Cons a cs)
  from Cons.prems(1) obtain sa a' t r where a: "calculateNodeTreeSize a = Inr (sa, a')"
    and r: "calculateNodeTreeSize_Set cs = Inr (t, r)"
    and eq: "s0 = sa + t" "cs' = a' # r"
    by (auto simp: and_then_Inr_iff)
  from Cons.IH [OF r Cons.prems(2)] a eq show ?case by simp
qed

lemma nodes_bytes_append:
  "nodes_bytes fp off (xs @ ys) =
     nodes_bytes fp off xs @ nodes_bytes fp (off + length (nodes_bytes fp off xs)) ys"
  by (induction xs arbitrary: off) (simp_all add: Let_def ac_simps)

lemma properties_bytes_append:
  "properties_bytes fp (ps @ qs) = properties_bytes fp ps @ properties_bytes fp qs"
  by (simp add: properties_bytes_def)


lemma addProperty_Cons:
  "addProperty p t (v # vs) st = addProperty p t vs (addProperty p t [v] st)"
  by (simp add: Let_def split_def)

lemma example_store_eq:
  "example_store =
     \<lparr>records =
        [2 \<mapsto> \<lparr>obj_name = js ''B'', obj_properties = [], obj_children = [],
                 obj_size = None, obj_propertySize = None\<rparr>,
         3 \<mapsto> \<lparr>obj_name = js ''B'', obj_properties = [], obj_children = [],
                 obj_size = None, obj_propertySize = None\<rparr>,
         4 \<mapsto> \<lparr>obj_name = js ''B'', obj_properties = [], obj_children = [],
                 obj_size = None, obj_propertySize = None\<rparr>,
         0 \<mapsto> \<lparr>obj_name = js ''A'', obj_properties = [1], obj_children = [2],
                 obj_size = None, obj_propertySize = None\<rparr>],
      props = [1 \<mapsto> Property PROPERTY_INT_32 (JSNumber 7)],
      fresh = 5\<rparr>"
  by (simp add: example_store_def new_FBXNodeRecord_def Let_def addChild_def update_record_def
      new_property_def Set_add_def eval_nat_numeral)

text \<open>
  Claim C10. Let \<open>p\<close> be a record of a store whose children form a set and whose property
  objects were allocated earlier, as they are after the constructor and, by the statement
  itself, after each of the two methods. Then \<^verbatim>\<open>addChild\<close> returns its first argument;
  attaching a record that the parent already holds, wherever it stands among the
  children, leaves the store as it is; after \<^verbatim>\<open>addChild\<close> with any arguments the children are the former
  children followed by the arguments that were not held, each once. In particular a
  second \<^verbatim>\<open>addChild\<close> of the same record \<open>c\<close> changes nothing and \<open>c\<close> occurs once, while two
  different records that were not held are both kept, whatever they hold. \<^verbatim>\<open>addProperty\<close>
  with the values \<open>vs\<close> appends one newly allocated property object for each value and
  changes no other property object; so after two additions of the same type and value
  the parent holds two further property objects with that type and value. The traversal
  of the parent then reads the former properties followed by the two equal properties,
  and the former children followed by the subtree of \<open>c\<close>, once. The size of that tree
  counts the property twice and the subtree of \<open>c\<close> once, and a successful write of the
  sized tree consists of the header, the bytes of the former properties, the bytes of the
  property twice, the bytes of the former children, the bytes of the subtree of \<open>c\<close>
  once, and the 13 zero bytes.
\<close>

theorem set_semantics_of_records:
  fixes st :: store and obj :: node_object and p c d c1 c2 :: ref and cs :: "ref list"
    and t :: PropertyType and v :: jsvalue and vs :: "jsvalue list" and k :: nat
    and ps0 :: "Property list" and cs0 cs0' :: "FBXNodeRecord list"
    and ct ct' :: FBXNodeRecord and p0 pv s0 sc :: nat
    and fp :: ieee754 and b b' :: BufferWrapper
  assumes parent: "records st p = Some obj"
    and once: "distinct (obj_children obj)"
    and older: "list_all (\<lambda>q. q < fresh st) (obj_properties obj)"
  defines "st1 \<equiv> snd (addChild p [c] st)"
  defines "st2 \<equiv> snd (addChild p [c] st1)"
  defines "st3 \<equiv> addProperty p t [v] st2"
  defines "st4 \<equiv> addProperty p t [v] st3"
  defines "n \<equiv> FBXNodeRecord (obj_name obj) (ps0 @ [Property t v, Property t v]) (cs0 @ [ct])
                 (obj_size obj) (obj_propertySize obj)"
  defines "s \<equiv> 4 + 4 + 4 + 1 + length (obj_name obj) + (p0 + pv + pv) + (s0 + sc) + 13"
  defines "n' \<equiv> FBXNodeRecord (obj_name obj) (ps0 @ [Property t v, Property t v]) (cs0' @ [ct'])
                  (Some s) (Some (p0 + pv + pv))"
  defines "o1 \<equiv> offset b + length (header_bytes (offset b) n' @
                  properties_bytes fp (ps0 @ [Property t v, Property t v]))"
  shows "fst (addChild p (c # cs) st) = Some c \<and>
         (d \<in> set (obj_children obj) \<longrightarrow> snd (addChild p [d] st) = st) \<and>
         (\<exists>ys. snd (addChild p cs st) =
                 st\<lparr>records := (records st)(p \<mapsto>
                       obj\<lparr>obj_children := obj_children obj @ ys\<rparr>)\<rparr> \<and>
               distinct (obj_children obj @ ys) \<and>
               set ys = set cs - set (obj_children obj)) \<and>
         st2 = st1 \<and>
         map_option (\<lambda>ob. count_list (obj_children ob) c) (records st2 p) = Some 1 \<and>
         (c1 \<noteq> c2 \<and> c1 \<notin> set (obj_children obj) \<and> c2 \<notin> set (obj_children obj) \<longrightarrow>
            map_option obj_children (records (snd (addChild p [c1, c2] st)) p) =
              Some (obj_children obj @ [c1, c2])) \<and>
         records (addProperty p t vs st) =
           (records st)(p \<mapsto> obj\<lparr>obj_properties :=
              obj_properties obj @ [fresh st ..< fresh st + length vs]\<rparr>) \<and>
         fresh (addProperty p t vs st) = fresh st + length vs \<and>
         (\<forall>i<length vs. props (addProperty p t vs st) (fresh st + i) =
                           Some (Property t (vs ! i))) \<and>
         (\<forall>q<fresh st. props (addProperty p t vs st) q = props st q) \<and>
         map_option obj_properties (records st4 p) =
           Some (obj_properties obj @ [fresh st, Suc (fresh st)]) \<and>
         props st4 (fresh st) = Some (Property t v) \<and>
         props st4 (Suc (fresh st)) = Some (Property t v) \<and>
         (c \<notin> set (obj_children obj) \<and>
          map Some ps0 = map (props st) (obj_properties obj) \<and>
          map Some cs0 = map (snapshot k st4) (obj_children obj) \<and>
          snapshot k st4 c = Some ct \<longrightarrow>
            snapshot (Suc k) st4 p = Some n) \<and>
         (properties_size ps0 0 = Inr p0 \<and> property_size (Property t v) = Inr pv \<and>
          calculateNodeTreeSize_Set cs0 = Inr (s0, cs0') \<and>
          calculateNodeTreeSize ct = Inr (sc, ct') \<longrightarrow>
            calculateNodeTreeSize n = Inr (s, n')) \<and>
         (writeNode fp n' b = Inr b' \<longrightarrow>
            data b' =
              take (offset b) (data b) @ header_bytes (offset b) n' @
              properties_bytes fp ps0 @
              property_bytes fp (Property t v) @ property_bytes fp (Property t v) @
              nodes_bytes fp o1 cs0' @
              node_bytes fp (o1 + length (nodes_bytes fp o1 cs0')) ct' @
              replicate 13 0 @ drop (offset b') (data b))"
proof -
  let ?old = "obj_children obj" and ?oldp = "obj_properties obj" and ?f = "fresh st"
  let ?P = "Property t v"
  let ?obj1 = "obj\<lparr>obj_children := Set_add c ?old\<rparr>"
  have a1: "addChild p [c] st = (Some c, st\<lparr>records := (records st)(p \<mapsto> ?obj1)\<rparr>)"
    by (rule addChild_one [OF parent])
  have s1: "st1 = st\<lparr>records := (records st)(p \<mapsto> ?obj1)\<rparr>"
    unfolding st1_def by (simp only: a1 snd_conv)
  have r1: "records st1 p = Some ?obj1" and f1: "fresh st1 = ?f" and q1: "props st1 = props st"
    by (simp_all add: s1)
  have C1: "fst (addChild p (c # cs) st) = Some c" by (simp add: addChild_def)
  have C2: "d \<in> set ?old \<longrightarrow> snd (addChild p [d] st) = st"
    using addChild_held [OF parent] by blast
  have C3: "\<exists>ys. snd (addChild p cs st) =
                 st\<lparr>records := (records st)(p \<mapsto> obj\<lparr>obj_children := ?old @ ys\<rparr>)\<rparr> \<and>
               distinct (?old @ ys) \<and> set ys = set cs - set ?old"
    using add_each_child_spec [OF parent once, of cs] by (simp add: addChild_def)
  have C4: "st2 = st1" unfolding st2_def st1_def by (rule addChild_again [OF parent])
  have C5: "map_option (\<lambda>ob. count_list (obj_children ob) c) (records st2 p) = Some 1"
    by (simp add: C4 r1 Set_add_count [OF once])
  have C6: "c1 \<noteq> c2 \<and> c1 \<notin> set ?old \<and> c2 \<notin> set ?old \<longrightarrow>
            map_option obj_children (records (snd (addChild p [c1, c2] st)) p) =
              Some (?old @ [c1, c2])"
    by (simp add: addChild_two [OF parent] Set_add_def)
  note sp = addProperty_spec [OF parent older, of t vs]
  have C7: "records (addProperty p t vs st) =
           (records st)(p \<mapsto> obj\<lparr>obj_properties := ?oldp @ [?f ..< ?f + length vs]\<rparr>)"
    by (rule sp [THEN conjunct1])
  have C8: "fresh (addProperty p t vs st) = ?f + length vs"
    by (rule sp [THEN conjunct2, THEN conjunct1])
  have C9: "\<forall>i<length vs. props (addProperty p t vs st) (?f + i) = Some (Property t (vs ! i))"
    by (simp add: sp [THEN conjunct2, THEN conjunct2])
  have C10: "\<forall>q<?f. props (addProperty p t vs st) q = props st q"
    by (simp add: sp [THEN conjunct2, THEN conjunct2])
  have older1: "list_all (\<lambda>q. q < fresh st1) (obj_properties ?obj1)"
    using older by (simp add: f1)
  have s4: "st4 = addProperty p t [v, v] st1"
    unfolding st4_def st3_def C4 by (simp only: addProperty_Cons [of p t v "[v]"])
  note sp4 = addProperty_spec [OF r1 older1, of t "[v, v]"]
  have r4: "records st4 p =
      Some (obj\<lparr>obj_children := Set_add c ?old, obj_properties := ?oldp @ [?f, Suc ?f]\<rparr>)"
    unfolding s4 by (simp add: sp4 [THEN conjunct1] f1 upt_rec [of ?f] del: addProperty.simps)
  have q4: "props st4 = (\<lambda>q. if ?f \<le> q \<and> q < ?f + 2
                          then Some (Property t ([v, v] ! (q - ?f))) else props st q)"
    unfolding s4
    by (rule ext)
       (simp add: sp4 [THEN conjunct2, THEN conjunct2] f1 q1 del: addProperty.simps cong: if_cong)
  have qf: "props st4 ?f = Some ?P" and qs: "props st4 (Suc ?f) = Some ?P"
    by (simp_all add: q4)
  have qo: "q < ?f \<Longrightarrow> props st4 q = props st q" for q by (simp add: q4)
  have C11: "map_option obj_properties (records st4 p) = Some (?oldp @ [?f, Suc ?f])"
    by (simp add: r4)
  have C14: "c \<notin> set ?old \<and> map Some ps0 = map (props st) ?oldp \<and>
          map Some cs0 = map (snapshot k st4) ?old \<and> snapshot k st4 c = Some ct \<longrightarrow>
            snapshot (Suc k) st4 p = Some n"
  proof (intro impI, elim conjE)
    assume new: "c \<notin> set ?old" and ps: "map Some ps0 = map (props st) ?oldp"
      and cs: "map Some cs0 = map (snapshot k st4) ?old" and ct: "snapshot k st4 c = Some ct"
    have "map (props st4) ?oldp = map (props st) ?oldp"
      using older by (auto simp: list_all_iff qo)
    then have "map (props st4) (?oldp @ [?f, Suc ?f]) = map Some ps0 @ [Some ?P, Some ?P]"
      by (simp add: ps qf qs)
    then have tp: "those (map (props st4) (?oldp @ [?f, Suc ?f])) = Some (ps0 @ [?P, ?P])"
      by (simp only: those_map_Some) simp
    have "map (snapshot k st4) (?old @ [c]) = map Some cs0 @ [Some ct]"
      by (simp add: cs ct)
    then have tc: "those (map (snapshot k st4) (?old @ [c])) = Some (cs0 @ [ct])"
      by (simp only: those_map_Some) simp
    have r4': "records st4 p =
      Some (obj\<lparr>obj_children := ?old @ [c], obj_properties := ?oldp @ [?f, Suc ?f]\<rparr>)"
      by (simp add: r4 Set_add_fresh [OF new])
    show "snapshot (Suc k) st4 p = Some n"
      unfolding n_def by (simp add: r4' tp tc del: those.simps map_append)
  qed
  have C15: "properties_size ps0 0 = Inr p0 \<and> property_size ?P = Inr pv \<and>
          calculateNodeTreeSize_Set cs0 = Inr (s0, cs0') \<and>
          calculateNodeTreeSize ct = Inr (sc, ct') \<longrightarrow>
            calculateNodeTreeSize n = Inr (s, n')"
  proof (intro impI, elim conjE)
    assume ps: "properties_size ps0 0 = Inr p0" and pv: "property_size ?P = Inr pv"
      and cs: "calculateNodeTreeSize_Set cs0 = Inr (s0, cs0')"
      and ct: "calculateNodeTreeSize ct = Inr (sc, ct')"
    let ?h = "4 + 4 + 4 + 1 + length (obj_name obj)"
    have a: "properties_size (ps0 @ [?P, ?P]) ?h = Inr (?h + (p0 + pv + pv))"
      by (simp add: properties_size_append properties_size_shift [OF ps] pv ac_simps
            del: property_size.simps)
    have b: "calculateNodeTreeSize_Set (cs0 @ [ct]) = Inr (s0 + sc, cs0' @ [ct'])"
      by (rule calculateNodeTreeSize_Set_snoc [OF cs ct])
    show "calculateNodeTreeSize n = Inr (s, n')"
      unfolding n_def n'_def s_def using a b by (simp add: Let_def)
  qed
  have C16: "writeNode fp n' b = Inr b' \<longrightarrow>
            data b' =
              take (offset b) (data b) @ header_bytes (offset b) n' @
              properties_bytes fp ps0 @ property_bytes fp ?P @ property_bytes fp ?P @
              nodes_bytes fp o1 cs0' @
              node_bytes fp (o1 + length (nodes_bytes fp o1 cs0')) ct' @
              replicate 13 0 @ drop (offset b') (data b)"
  proof
    assume w: "writeNode fp n' b = Inr b'"
    let ?bs = "node_bytes fp (offset b) n'"
    from writeNode_Inr(1) [OF w] have
      d: "data b' = take (offset b) (data b) @ ?bs @ drop (offset b + length ?bs) (data b)"
      and o: "offset b' = offset b + length ?bs"
      by (simp_all add: writeBuffer_Inr_iff)
    have pb: "properties_bytes fp (ps0 @ [?P, ?P]) =
                properties_bytes fp ps0 @ property_bytes fp ?P @ property_bytes fp ?P"
      by (simp add: properties_bytes_def)
    have "?bs = header_bytes (offset b) n' @
              properties_bytes fp ps0 @ property_bytes fp ?P @ property_bytes fp ?P @
              nodes_bytes fp o1 cs0' @
              node_bytes fp (o1 + length (nodes_bytes fp o1 cs0')) ct' @ replicate 13 0"
    proof -
      have "?bs = (header_bytes (offset b) n' @ properties_bytes fp (ps0 @ [?P, ?P])) @
                  nodes_bytes fp o1 (cs0' @ [ct']) @ replicate 13 0"
        unfolding o1_def by (simp add: n'_def Let_def del: property_bytes.simps)
      also have "nodes_bytes fp o1 (cs0' @ [ct']) =
                   nodes_bytes fp o1 cs0' @
                   node_bytes fp (o1 + length (nodes_bytes fp o1 cs0')) ct'"
        by (simp add: nodes_bytes_append Let_def)
      finally show ?thesis by (simp add: pb del: property_bytes.simps)
    qed
    with d o show "data b' =
              take (offset b) (data b) @ header_bytes (offset b) n' @
              properties_bytes fp ps0 @ property_bytes fp ?P @ property_bytes fp ?P @
              nodes_bytes fp o1 cs0' @
              node_bytes fp (o1 + length (nodes_bytes fp o1 cs0')) ct' @
              replicate 13 0 @ drop (offset b') (data b)"
      by simp
  qed
  show ?thesis
    using C1 C2 C3 C4 C5 C6 C7 C8 C9 C10 C11 qf qs C14 C15 C16
    unfolding st4_def [symmetric]
    by (intro conjI)
qed

theorem set_semantics_of_records_witness:
  "records example_store 0 =
     Some \<lparr>obj_name = js ''A'', obj_properties = [1], obj_children = [2],
           obj_size = None, obj_propertySize = None\<rparr> \<and>
   fresh example_store = 5 \<and>
   records example_store 3 = records example_store 4 \<and>
   snd (addChild 0 [2] example_store) = example_store \<and>
   snd (addChild 0 [3] (snd (addChild 0 [3] example_store))) =
     snd (addChild 0 [3] example_store) \<and>
   map_option obj_children (records (snd (addChild 0 [3] (snd (addChild 0 [3] example_store)))) 0) =
     Some [2, 3] \<and>
   map_option obj_children (records (snd (addChild 0 [3, 4] example_store)) 0) = Some [2, 3, 4] \<and>
   map_option obj_properties
     (records (addProperty 0 PROPERTY_INT_32 [JSNumber 1, JSNumber 1] example_store) 0) =
     Some [1, 5, 6] \<and>
   snapshot 2
     (addProperty 0 PROPERTY_INT_32 [JSNumber 42]
        (addProperty 0 PROPERTY_INT_32 [JSNumber 42]
           (snd (addChild 0 [3] (snd (addChild 0 [3] example_store)))))) 0 =
     Some (FBXNodeRecord (js ''A'')
             [Property PROPERTY_INT_32 (JSNumber 7), Property PROPERTY_INT_32 (JSNumber 42),
              Property PROPERTY_INT_32 (JSNumber 42)]
             [FBXNodeRecord (js ''B'') [] [] None None, FBXNodeRecord (js ''B'') [] [] None None]
             None None) \<and>
   calculateNodeTreeSize
     (FBXNodeRecord (js ''A'')
        [Property PROPERTY_INT_32 (JSNumber 7), Property PROPERTY_INT_32 (JSNumber 42),
         Property PROPERTY_INT_32 (JSNumber 42)]
        [FBXNodeRecord (js ''B'') [] [] None None, FBXNodeRecord (js ''B'') [] [] None None]
        None None) =
     Inr (70, FBXNodeRecord (js ''A'')
        [Property PROPERTY_INT_32 (JSNumber 7), Property PROPERTY_INT_32 (JSNumber 42),
         Property PROPERTY_INT_32 (JSNumber 42)]
        [FBXNodeRecord (js ''B'') [] [] (Some 14) (Some 0),
         FBXNodeRecord (js ''B'') [] [] (Some 14) (Some 0)]
        (Some 70) (Some 15)) \<and>
   writeNode example_fp
     (FBXNodeRecord (js ''A'')
        [Property PROPERTY_INT_32 (JSNumber 7), Property PROPERTY_INT_32 (JSNumber 42),
         Property PROPERTY_INT_32 (JSNumber 42)]
        [FBXNodeRecord (js ''B'') [] [] (Some 14) (Some 0),
         FBXNodeRecord (js ''B'') [] [] (Some 14) (Some 0)]
        (Some 70) (Some 15)) (alloc 70) =
     Inr \<lparr>data = [70, 0, 0, 0, 3, 0, 0, 0, 15, 0, 0, 0, 1, 0x41,
                  0x49, 7, 0, 0, 0, 0x49, 42, 0, 0, 0, 0x49, 42, 0, 0, 0,
                  43, 0, 0, 0, 0, 0, 0, 0, 0, 0, 0, 0, 1, 0x42,
                  57, 0, 0, 0, 0, 0, 0, 0, 0, 0, 0, 0, 1, 0x42,
                  0, 0, 0, 0, 0, 0, 0, 0, 0, 0, 0, 0, 0],
           offset = 70\<rparr>"
proof -
  let ?A = "\<lparr>obj_name = js ''A'', obj_properties = [1], obj_children = [2],
             obj_size = None, obj_propertySize = None\<rparr>"
  let ?O = "\<lparr>obj_name = js ''B'', obj_properties = [], obj_children = [],
             obj_size = None, obj_propertySize = None\<rparr>"
  let ?P7 = "Property PROPERTY_INT_32 (JSNumber 7)"
  let ?P = "Property PROPERTY_INT_32 (JSNumber 42)"
  let ?B = "FBXNodeRecord (js ''B'') [] [] None None"
  let ?B' = "FBXNodeRecord (js ''B'') [] [] (Some 14) (Some 0)"
  let ?N = "FBXNodeRecord (js ''A'') [?P7, ?P, ?P] [?B, ?B] None None"
  let ?N' = "FBXNodeRecord (js ''A'') [?P7, ?P, ?P] [?B', ?B'] (Some 70) (Some 15)"
  let ?bs = "[70, 0, 0, 0, 3, 0, 0, 0, 15, 0, 0, 0, 1, 0x41,
              0x49, 7, 0, 0, 0, 0x49, 42, 0, 0, 0, 0x49, 42, 0, 0, 0,
              43, 0, 0, 0, 0, 0, 0, 0, 0, 0, 0, 0, 1, 0x42,
              57, 0, 0, 0, 0, 0, 0, 0, 0, 0, 0, 0, 1, 0x42,
              0, 0, 0, 0, 0, 0, 0, 0, 0, 0, 0, 0, 0] :: byte list"
  let ?W = example_store
  let ?W1 = "snd (addChild 0 [3] ?W)"
  let ?W2 = "snd (addChild 0 [3] ?W1)"
  let ?W4 = "addProperty 0 PROPERTY_INT_32 [JSNumber 42]
               (addProperty 0 PROPERTY_INT_32 [JSNumber 42] ?W2)"
  have h1: "records ?W 0 = Some ?A" and h2: "distinct (obj_children ?A)"
    and h3: "list_all (\<lambda>q. q < fresh ?W) (obj_properties ?A)"
    and f: "fresh ?W = 5" and r3: "records ?W 3 = Some ?O" and r4: "records ?W 4 = Some ?O"
    and r2: "records ?W 2 = Some ?O" and q1: "props ?W 1 = Some ?P7"
    by (simp_all add: example_store_eq)
  note T = set_semantics_of_records [OF h1 h2 h3, where c = 3 and d = 2 and ?c1.0 = 3
      and ?c2.0 = 4 and cs = "[2, 3, 3]" and t = PROPERTY_INT_32 and v = "JSNumber 42"
      and vs = "[JSNumber 1, JSNumber 1]" and k = "Suc 0" and ?ps0.0 = "[?P7]"
      and ?cs0.0 = "[?B]" and ct = ?B and ?p0.0 = 5 and pv = 5 and ?s0.0 = 14 and sc = 14
      and cs0' = "[?B']" and ct' = ?B' and fp = example_fp and b = "alloc 70"
      and b' = "\<lparr>data = ?bs, offset = 70\<rparr>"]
  note T2 = T [THEN conjunct2]
  note T3 = T2 [THEN conjunct2]
  note T4 = T3 [THEN conjunct2]
  note T5 = T4 [THEN conjunct2]
  note T6 = T5 [THEN conjunct2]
  note T7 = T6 [THEN conjunct2]
  note T11 = T7 [THEN conjunct2, THEN conjunct2, THEN conjunct2, THEN conjunct2]
  note T14 = T11 [THEN conjunct2, THEN conjunct2, THEN conjunct2]
  note T15 = T14 [THEN conjunct2]
  note T16 = T15 [THEN conjunct2]
  have k2: "snd (addChild 0 [2] ?W) = ?W"
    using T2 [THEN conjunct1] by simp
  have k4: "?W2 = ?W1" by (rule T4 [THEN conjunct1])
  have rec1: "records ?W1 0 = Some (?A\<lparr>obj_children := [2, 3]\<rparr>)"
    by (simp add: addChild_one [OF h1] Set_add_def)
  have k5: "map_option obj_children (records ?W2 0) = Some [2, 3]"
    unfolding k4 by (simp add: rec1)
  have k6: "map_option obj_children (records (snd (addChild 0 [3, 4] ?W)) 0) = Some [2, 3, 4]"
    using T6 [THEN conjunct1] by simp
  have k7: "map_option obj_properties
     (records (addProperty 0 PROPERTY_INT_32 [JSNumber 1, JSNumber 1] ?W) 0) = Some [1, 5, 6]"
    by (simp add: T7 [THEN conjunct1] f upt_rec del: addProperty.simps)
  have w4: "records ?W4 2 = Some ?O" "records ?W4 3 = Some ?O"
    by (simp_all add: example_store_eq addChild_def update_record_def new_property_def
          Set_add_def Let_def)
  have P14: "3 \<notin> set (obj_children ?A) \<and>
      map Some [?P7] = map (props ?W) (obj_properties ?A) \<and>
      map Some [?B] = map (snapshot (Suc 0) ?W4) (obj_children ?A) \<and>
      snapshot (Suc 0) ?W4 3 = Some ?B"
    using q1 by (simp add: w4 del: addProperty.simps)
  from T14 [THEN conjunct1, THEN mp, OF P14]
  have k14: "snapshot 2 ?W4 0 = Some ?N"
    by (simp add: numeral_2_eq_2 del: addProperty.simps snapshot.simps)
  have P15: "properties_size [?P7] 0 = Inr 5 \<and> property_size ?P = Inr 5 \<and>
      calculateNodeTreeSize_Set [?B] = Inr (14, [?B']) \<and>
      calculateNodeTreeSize ?B = Inr (14, ?B')"
    by (simp add: js_def)
  from T15 [THEN conjunct1, THEN mp, OF P15]
  have k15: "calculateNodeTreeSize ?N = Inr (70, ?N')"
    by (simp add: js_def del: calculateNodeTreeSize.simps)
  have "writable example_fp (offset (alloc 70)) ?N'"
    by (simp add: alloc_def utf8_js_A utf8_js_B properties_bytes_def header_bytes_def
          int_bytes_def le_bytes_numeral)
  then have "writeNode example_fp ?N' (alloc 70) =
             writeBuffer (node_bytes example_fp (offset (alloc 70)) ?N') (alloc 70)"
    by (rule writeNode_writable)
  moreover have "node_bytes example_fp (offset (alloc 70)) ?N' = ?bs"
    by (simp add: alloc_def header_bytes_def properties_bytes_def utf8_js_A utf8_js_B
          int_bytes_def le_bytes_numeral replicate_numeral)
  moreover have "writeBuffer ?bs (alloc 70) = Inr \<lparr>data = ?bs, offset = 70\<rparr>"
    by (rule writeBuffer_alloc) simp
  ultimately have P16: "writeNode example_fp ?N' (alloc 70) = Inr \<lparr>data = ?bs, offset = 70\<rparr>"
    by (simp only:)
  have same: "records ?W 3 = records ?W 4" by (simp only: r3 r4)
  show ?thesis
    using h1 f same k2 k4 k5 k6 k7 k14 k15 P16 by (intro conjI)
qed

section \<open>Sized trees are written as sized\<close>

lemma take4_node_bytes:
  "size_fld n = Some s \<Longrightarrow> take 4 (node_bytes fp off n) = le_bytes 4 (off + s)"
  by (cases n) (simp add: header_bytes_def Let_def del: le_bytes.simps)

text \<open>
  The agreement of the two passes, for the trees on which it holds: records with ASCII
  names shorter than 256 characters and well-formed properties. Such a tree is always
  sized; written at an offset with room for it (and an end offset below \<open>2^32\<close>) its
  sized form is written without error, the cursor advances by the computed size, nothing
  outside the written range changes, and the first header field is the offset at which
  the record ends.
\<close>

theorem sized_tree_written_exactly:
  assumes "wf_node n"
  shows "\<exists>s n'. calculateNodeTreeSize n = Inr (s, n') \<and>
           (\<forall>b. offset b + s \<le> length (data b) \<and> offset b + s < 2 ^ 32 \<longrightarrow>
              (\<exists>bs. length bs = s \<and> le_nat (take 4 bs) = offset b + s \<and>
                 writeNode fp n' b =
                   Inr \<lparr>data = take (offset b) (data b) @ bs @ drop (offset b + s) (data b),
                        offset = offset b + s\<rparr>))"
proof -
  from sizing_wf(1) [OF assms, of fp] obtain s n' where
    calc: "calculateNodeTreeSize n = Inr (s, n')" and
    len: "\<And>off. length (node_bytes fp off n') = s" and
    wr: "\<And>off. off + s < 2 ^ 32 \<Longrightarrow> writable fp off n'"
    by blast
  have sz: "size_fld n' = Some s"
    using sizing_stored(1) [OF calc] by simp
  have "\<exists>bs. length bs = s \<and> le_nat (take 4 bs) = offset b + s \<and>
          writeNode fp n' b =
            Inr \<lparr>data = take (offset b) (data b) @ bs @ drop (offset b + s) (data b),
                 offset = offset b + s\<rparr>"
    if fit: "offset b + s \<le> length (data b)" and lt: "offset b + s < 2 ^ 32" for b
  proof (intro exI conjI)
    let ?bs = "node_bytes fp (offset b) n'"
    show "length ?bs = s" by (rule len)
    have "le_nat (take 4 ?bs) = (offset b + s) mod 256 ^ 4"
      by (simp only: take4_node_bytes [OF sz] le_nat_le_bytes)
    with lt show "le_nat (take 4 ?bs) = offset b + s" by simp
    have "writeNode fp n' b = writeBuffer ?bs b"
      by (rule writeNode_writable) (rule wr [OF lt])
    with fit show "writeNode fp n' b =
            Inr \<lparr>data = take (offset b) (data b) @ ?bs @ drop (offset b + s) (data b),
                 offset = offset b + s\<rparr>"
      by (simp add: writeBuffer_def len)
  qed
  with calc show ?thesis by blast
qed

section \<open>Two runs at different hours\<close>

lemma length_js [simp]: "length (js s) = length s"
  by (simp add: js_def)

lemma ascii_js: "list_all (\<lambda>c. c < 0x80) (js s) = list_all (\<lambda>c. of_char c < (128::nat)) s"
proof -
  have "(of_nat (of_char c) :: 16 word) < 0x80 \<longleftrightarrow> of_char c < (128::nat)" for c :: char
  proof -
    have "(of_char c :: nat) < 2 ^ 16"
      by (rule less_trans [OF nat_of_char_less_256]) simp
    then have "unat (of_nat (of_char c) :: 16 word) = of_char c"
      by (intro of_nat_inverse [OF refl]) simp
    then show ?thesis by (simp add: word_less_nat_alt)
  qed
  then show ?thesis by (simp add: js_def list_all_iff)
qed

lemma ascii_digits: "list_all (\<lambda>c. c < 0x80) (digits n)"
proof (induction n rule: digits.induct)
  case (1 n)
  have d: "(of_nat (48 + k) :: 16 word) < 0x80" if "k < 10" for k
  proof -
    from that have "unat (of_nat (48 + k) :: 16 word) = 48 + k"
      by (intro of_nat_inverse [OF refl]) simp
    with that show ?thesis by (simp add: word_less_nat_alt)
  qed
  show ?case
  proof (cases "n < 10")
    case True
    then show ?thesis using d [of n] by (simp add: digits.simps [of n])
  next
    case False
    then show ?thesis using "1.IH" d [of "n mod 10"] by (simp add: digits.simps [of n])
  qed
qed

lemma ascii_toString: "list_all (\<lambda>c. c < 0x80) (toString i)"
  by (simp add: toString_def ascii_digits)

lemma ascii_padStart: "list_all (\<lambda>c. c < 0x80) (padStart n s) = list_all (\<lambda>c. c < 0x80) s"
  by (auto simp: padStart_def list_all_iff)

lemma ascii_format_time:
  "list_all (\<lambda>c. c < 0x80) (format_time a b c d e f g) \<longleftrightarrow>
   list_all (\<lambda>c. c < 0x80) a \<and> list_all (\<lambda>c. c < 0x80) b \<and> list_all (\<lambda>c. c < 0x80) c \<and>
   list_all (\<lambda>c. c < 0x80) d \<and> list_all (\<lambda>c. c < 0x80) e \<and> list_all (\<lambda>c. c < 0x80) f \<and>
   list_all (\<lambda>c. c < 0x80) g"
  by (simp add: format_time_def ascii_js)

lemma length_format_time:
  "length (format_time a b c d e f g) =
   length a + length b + length c + length d + length e + length f + length g + 6"
  by (simp add: format_time_def)

lemma length_padStart: "length (padStart n s) = max n (length s)"
  by (simp add: padStart_def)

lemmas ascii_simps = length_utf8_ascii ascii_js ascii_toString ascii_padStart ascii_format_time

lemmas record_defs = Let_def split_def new_record_with_def new_record_def add_properties_def
  add_children_def int32_record_def str_def

lemmas header_defs = buildExtendedHeaderNode_def buildSceneInfoNode_def
  buildCreationTimeStampNode_def createCompound_def FBXProperty_URL_def
  getApplicationString_def FBX_VERSION_def

lemma sized_Inr:
  "map_sum id fst (calculateNodeTreeSize n) = Inr s \<Longrightarrow>
   \<exists>h. calculateNodeTreeSize n = Inr (s, h) \<and> size_fld h = Some s"
proof -
  assume a: "map_sum id fst (calculateNodeTreeSize n) = Inr s"
  then obtain h where h: "calculateNodeTreeSize n = Inr (s, h)"
    by (cases "calculateNodeTreeSize n") auto
  from sizing_stored(1) [OF h] h show ?thesis by simp
qed

lemma header_size_at_9:
  "map_sum id fst (calculateNodeTreeSize
     (fst (buildExtendedHeaderNode (example_sys 9) example_writer w))) = Inr 1751"
  by (simp add: header_defs example_sys_def example_date_def example_writer_def record_defs
        ascii_simps length_format_time length_padStart toString_def digits.simps)

lemma header_size_at_10:
  "map_sum id fst (calculateNodeTreeSize
     (fst (buildExtendedHeaderNode (example_sys 10) example_writer w))) = Inr 1753"
  by (simp add: header_defs example_sys_def example_date_def example_writer_def record_defs
        ascii_simps length_format_time length_padStart toString_def digits.simps)

text \<open>
  Claim C9. Two runs with the same destination, the same manifest and the same random
  numbers, whose clocks differ in the hour alone (09:07:08.009 and 10:07:08.009 on
  5 January 2020): the hour is formatted without padding, so the time strings of the
  second run are one character longer. The size of the FBXHeaderExtension record is 1751
  in the first run and 1753 in the second, so that its end-offset field, which the writer
  puts at offset 27 of the file, holds \<^verbatim>\<open>F2 06 00 00\<close> in the first run and
  \<^verbatim>\<open>F4 06 00 00\<close> in the second; the CreationTime record has 52 bytes in the first run
  and 53 in the second. These bytes belong to no time stamp and to no file id.
\<close>

theorem hour_digits_change_offsets:
  "(\<exists>h. calculateNodeTreeSize
            (fst (buildExtendedHeaderNode (example_sys 9) example_writer w)) = Inr (1751, h) \<and>
         take 4 (node_bytes fp 27 h) = [0xF2, 0x06, 0x00, 0x00]) \<and>
   (\<exists>h. calculateNodeTreeSize
            (fst (buildExtendedHeaderNode (example_sys 10) example_writer w)) = Inr (1753, h) \<and>
         take 4 (node_bytes fp 27 h) = [0xF4, 0x06, 0x00, 0x00]) \<and>
   map_sum id fst (calculateNodeTreeSize (fst (buildCreationTimeNode (example_sys 9) w))) =
     Inr 52 \<and>
   map_sum id fst (calculateNodeTreeSize (fst (buildCreationTimeNode (example_sys 10) w))) =
     Inr 53"
proof (intro conjI)
  from sized_Inr [OF header_size_at_9] obtain h where
    h: "calculateNodeTreeSize
          (fst (buildExtendedHeaderNode (example_sys 9) example_writer w)) = Inr (1751, h)"
    and s: "size_fld h = Some 1751"
    by blast
  have "take 4 (node_bytes fp 27 h) = [0xF2, 0x06, 0x00, 0x00]"
    by (simp add: take4_node_bytes [OF s] le_bytes_numeral)
  with h show "\<exists>h. calculateNodeTreeSize
            (fst (buildExtendedHeaderNode (example_sys 9) example_writer w)) = Inr (1751, h) \<and>
         take 4 (node_bytes fp 27 h) = [0xF2, 0x06, 0x00, 0x00]"
    by blast
next
  from sized_Inr [OF header_size_at_10] obtain h where
    h: "calculateNodeTreeSize
          (fst (buildExtendedHeaderNode (example_sys 10) example_writer w)) = Inr (1753, h)"
    and s: "size_fld h = Some 1753"
    by blast
  have "take 4 (node_bytes fp 27 h) = [0xF4, 0x06, 0x00, 0x00]"
    by (simp add: take4_node_bytes [OF s] le_bytes_numeral)
  with h show "\<exists>h. calculateNodeTreeSize
            (fst (buildExtendedHeaderNode (example_sys 10) example_writer w)) = Inr (1753, h) \<and>
         take 4 (node_bytes fp 27 h) = [0xF4, 0x06, 0x00, 0x00]"
    by blast
next
  show "map_sum id fst (calculateNodeTreeSize (fst (buildCreationTimeNode (example_sys 9) w))) =
     Inr 52"
    by (simp add: buildCreationTimeNode_def example_sys_def example_date_def record_defs
        ascii_simps length_format_time length_padStart toString_def digits.simps)
  show "map_sum id fst (calculateNodeTreeSize (fst (buildCreationTimeNode (example_sys 10) w))) =
     Inr 53"
    by (simp add: buildCreationTimeNode_def example_sys_def example_date_def record_defs
        ascii_simps length_format_time length_padStart toString_def digits.simps)
qed

end
